theory Spec2Isabelle
  imports Complex_Main
begin

section \<open>Values: tensors, Python objects, exceptions\<close>

text \<open>
  A dense tensor is its shape and its entries in row-major order. Arithmetic is over the
  reals: rounding, NaN and infinities of the floating point types are outside this model.
  Elementwise operations are modelled for operands of one shape (no broadcasting).
\<close>

datatype tensor = Tensor (shape: "nat list") (data: "real list")

datatype py_error = IndexError | ValueError | TypeError | AttributeError

text \<open>What a slot of a returned tuple, or an entry of a Python list, may hold.\<close>

datatype pyval = PNone | PTensor tensor | PList "tensor list"

type_synonym vfield = "real \<Rightarrow> tensor \<Rightarrow> tensor"

definition bind_err :: "py_error + 'a \<Rightarrow> ('a \<Rightarrow> py_error + 'b) \<Rightarrow> py_error + 'b" where
  "bind_err m g = (case m of Inl e \<Rightarrow> Inl e | Inr v \<Rightarrow> g v)"

definition t_map :: "(real \<Rightarrow> real) \<Rightarrow> tensor \<Rightarrow> tensor" where
  "t_map g a = Tensor (shape a) (map g (data a))"

definition t_zip :: "(real \<Rightarrow> real \<Rightarrow> real) \<Rightarrow> tensor \<Rightarrow> tensor \<Rightarrow> tensor" where
  "t_zip g a b = Tensor (shape a) (map2 g (data a) (data b))"

definition t_add :: "tensor \<Rightarrow> tensor \<Rightarrow> tensor" where
  "t_add = t_zip (+)"

definition t_sub :: "tensor \<Rightarrow> tensor \<Rightarrow> tensor" where
  "t_sub = t_zip (-)"

definition t_div :: "tensor \<Rightarrow> tensor \<Rightarrow> tensor" where
  "t_div = t_zip (/)"

definition t_max :: "tensor \<Rightarrow> tensor \<Rightarrow> tensor" where
  "t_max = t_zip max"

definition t_smul :: "real \<Rightarrow> tensor \<Rightarrow> tensor" where
  "t_smul c = t_map ((*) c)"

definition t_sadd :: "real \<Rightarrow> tensor \<Rightarrow> tensor" where
  "t_sadd c = t_map ((+) c)"

definition t_neg :: "tensor \<Rightarrow> tensor" where
  "t_neg = t_map uminus"

definition t_abs :: "tensor \<Rightarrow> tensor" where
  "t_abs = t_map abs"

text \<open>\<^verbatim>\<open>a, b, c = tup\<close>: unpacking a tuple of the wrong length raises ValueError.\<close>

definition unpack3 :: "pyval list \<Rightarrow> py_error + (pyval \<times> pyval \<times> pyval)" where
  "unpack3 tup = (case tup of [a, b, c] \<Rightarrow> Inr (a, b, c) | _ \<Rightarrow> Inl ValueError)"

definition unpack4 :: "pyval list \<Rightarrow> py_error + (pyval \<times> pyval \<times> pyval \<times> pyval)" where
  "unpack4 tup = (case tup of [a, b, c, d] \<Rightarrow> Inr (a, b, c, d) | _ \<Rightarrow> Inl ValueError)"

text \<open>A slot used as a tensor: arithmetic on \<^verbatim>\<open>None\<close> or on a list raises TypeError.\<close>

definition as_tensor :: "pyval \<Rightarrow> py_error + tensor" where
  "as_tensor v = (case v of PTensor a \<Rightarrow> Inr a | _ \<Rightarrow> Inl TypeError)"

text \<open>
  \<^verbatim>\<open>torch.stack(sol)\<close>: every entry must be a tensor. The stacked result is kept as
  the list of its slices along the new leading axis, so \<^verbatim>\<open>states[i]\<close> is the i-th entry.
\<close>

fun torch_stack :: "pyval list \<Rightarrow> py_error + tensor list" where
  "torch_stack [] = Inr []"
| "torch_stack (v # vs) =
     (case v of
        PTensor a \<Rightarrow> (case torch_stack vs of Inl e \<Rightarrow> Inl e | Inr as \<Rightarrow> Inr (a # as))
      | _ \<Rightarrow> Inl TypeError)"

section \<open>Solvers (solvers.py)\<close>

text \<open>
  \<^verbatim>\<open>SolverTemplate\<close>: the order, the adaptation constants, the stepping class and
  \<^verbatim>\<open>step(f, x, t, dt, k1=None)\<close>, which returns a tuple. The slope \<^verbatim>\<open>k1\<close> is
  \<^verbatim>\<open>None\<close> or a tensor.
\<close>

datatype stepping = Fixed | Adaptive

record solver =
  order :: nat
  min_factor :: real
  max_factor :: real
  safety :: real
  stepping_class :: stepping
  step :: "vfield \<Rightarrow> tensor \<Rightarrow> real \<Rightarrow> real \<Rightarrow> pyval \<Rightarrow> py_error + pyval list"

definition SolverTemplate ::
  "nat \<Rightarrow> stepping \<Rightarrow> (vfield \<Rightarrow> tensor \<Rightarrow> real \<Rightarrow> real \<Rightarrow> pyval \<Rightarrow> py_error + pyval list)
     \<Rightarrow> solver" where
  "SolverTemplate ord cls stp =
     \<lparr> order = ord, min_factor = 0.2, max_factor = 10, safety = 0.9,
       stepping_class = cls, step = stp \<rparr>"

text \<open>\<^verbatim>\<open>if k1 == None: k1 = f(t, x)\<close>; a slope that is not a tensor fails in the arithmetic.\<close>

definition slope1 :: "vfield \<Rightarrow> real \<Rightarrow> tensor \<Rightarrow> pyval \<Rightarrow> py_error + tensor" where
  "slope1 f t x k1 =
     (case k1 of PNone \<Rightarrow> Inr (f t x) | PTensor k \<Rightarrow> Inr k | PList _ \<Rightarrow> Inl TypeError)"

definition Euler_step ::
  "vfield \<Rightarrow> tensor \<Rightarrow> real \<Rightarrow> real \<Rightarrow> pyval \<Rightarrow> py_error + pyval list" where
  "Euler_step f x t dt k1 =
     bind_err (slope1 f t x k1) (\<lambda>k1.
       let x_sol = t_add x (t_smul dt k1)
       in Inr [PNone, PNone, PTensor x_sol])"

definition Euler :: solver where
  "Euler = SolverTemplate 1 Fixed Euler_step"

text \<open>
  A Butcher tableau \<^verbatim>\<open>(c, a, bsol, berr)\<close>. The constructors of _constants.py are not among
  the sources, so the steps take the tableau as it is; a tableau too short for the indices
  a step reads raises IndexError.
\<close>

record tableau =
  tb_c :: "real list"
  tb_a :: "real list list"
  tb_bsol :: "real list"
  tb_berr :: "real list"

text \<open>\<^verbatim>\<open>x + w1 * k1 + w2 * k2 + ...\<close>, added from the left.\<close>

definition lin :: "tensor \<Rightarrow> (real \<times> tensor) list \<Rightarrow> tensor" where
  "lin x wks = foldl (\<lambda>acc (w, k). t_add acc (t_smul w k)) x wks"

text \<open>\<^verbatim>\<open>w1 * k1 + w2 * k2 + ...\<close>, added from the left.\<close>

fun wsum :: "(real \<times> tensor) list \<Rightarrow> tensor" where
  "wsum [] = Tensor [] []"
| "wsum ((w, k) # wks) = lin (t_smul w k) wks"

definition rk4_shape :: "tableau \<Rightarrow> bool" where
  "rk4_shape tb \<longleftrightarrow>
     3 \<le> length (tb_c tb) \<and> 3 \<le> length (tb_a tb) \<and> 4 \<le> length (tb_bsol tb) \<and>
     1 \<le> length (tb_a tb ! 0) \<and> 2 \<le> length (tb_a tb ! 1) \<and> 3 \<le> length (tb_a tb ! 2)"

definition RungeKutta4_step ::
  "tableau \<Rightarrow> vfield \<Rightarrow> tensor \<Rightarrow> real \<Rightarrow> real \<Rightarrow> pyval \<Rightarrow> py_error + pyval list" where
  "RungeKutta4_step tb f x t dt k1 =
     (if \<not> rk4_shape tb then Inl IndexError
      else
        bind_err (slope1 f t x k1) (\<lambda>k1.
          let c = tb_c tb; a = tb_a tb; bsol = tb_bsol tb;
              k2 = f (t + c ! 0 * dt) (t_add x (t_smul dt (t_smul (a ! 0 ! 0) k1)));
              k3 = f (t + c ! 1 * dt)
                     (t_add x (t_smul dt (wsum [(a ! 1 ! 0, k1), (a ! 1 ! 1, k2)])));
              k4 = f (t + c ! 2 * dt)
                     (t_add x (t_smul dt (wsum [(a ! 2 ! 0, k1), (a ! 2 ! 1, k2), (a ! 2 ! 2, k3)])));
              x_sol = t_add x (t_smul dt
                        (wsum [(bsol ! 0, k1), (bsol ! 1, k2), (bsol ! 2, k3), (bsol ! 3, k4)]))
          in Inr [PNone, PNone, PTensor x_sol]))"

definition RungeKutta4 :: "tableau \<Rightarrow> solver" where
  "RungeKutta4 tb = SolverTemplate 4 Fixed (RungeKutta4_step tb)"

definition dopri5_shape :: "tableau \<Rightarrow> bool" where
  "dopri5_shape tb \<longleftrightarrow>
     6 \<le> length (tb_c tb) \<and> 6 \<le> length (tb_a tb) \<and>
     6 \<le> length (tb_bsol tb) \<and> 7 \<le> length (tb_berr tb) \<and>
     (\<forall>i < 6. i + 1 \<le> length (tb_a tb ! i))"

text \<open>
  \<^verbatim>\<open>DormandPrince45.step\<close>. In \<^verbatim>\<open>x + dt * a[0] * k1\<close> the row \<^verbatim>\<open>a[0]\<close> has one entry,
  which scales the slope.
\<close>

definition DormandPrince45_step ::
  "tableau \<Rightarrow> vfield \<Rightarrow> tensor \<Rightarrow> real \<Rightarrow> real \<Rightarrow> pyval \<Rightarrow> py_error + pyval list" where
  "DormandPrince45_step tb f x t dt k1 =
     (if \<not> dopri5_shape tb then Inl IndexError
      else
        bind_err (slope1 f t x k1) (\<lambda>k1.
          let c = tb_c tb; a = tb_a tb; bsol = tb_bsol tb; berr = tb_berr tb;
              k2 = f (t + c ! 0 * dt) (lin x [(dt * a ! 0 ! 0, k1)]);
              k3 = f (t + c ! 1 * dt)
                     (t_add x (t_smul dt (wsum [(a ! 1 ! 0, k1), (a ! 1 ! 1, k2)])));
              k4 = f (t + c ! 2 * dt)
                     (lin x [(dt * a ! 2 ! 0, k1), (dt * a ! 2 ! 1, k2), (dt * a ! 2 ! 2, k3)]);
              k5 = f (t + c ! 3 * dt)
                     (lin x [(dt * a ! 3 ! 0, k1), (dt * a ! 3 ! 1, k2), (dt * a ! 3 ! 2, k3),
                             (dt * a ! 3 ! 3, k4)]);
              k6 = f (t + c ! 4 * dt)
                     (lin x [(dt * a ! 4 ! 0, k1), (dt * a ! 4 ! 1, k2), (dt * a ! 4 ! 2, k3),
                             (dt * a ! 4 ! 3, k4), (dt * a ! 4 ! 4, k5)]);
              k7 = f (t + c ! 5 * dt)
                     (lin x [(dt * a ! 5 ! 0, k1), (dt * a ! 5 ! 1, k2), (dt * a ! 5 ! 2, k3),
                             (dt * a ! 5 ! 3, k4), (dt * a ! 5 ! 4, k5), (dt * a ! 5 ! 5, k6)]);
              x_sol = t_add x (t_smul dt
                        (wsum [(bsol ! 0, k1), (bsol ! 1, k2), (bsol ! 2, k3), (bsol ! 3, k4),
                               (bsol ! 4, k5), (bsol ! 5, k6)]));
              x_err = t_add x (t_smul dt
                        (wsum [(berr ! 0, k1), (berr ! 1, k2), (berr ! 2, k3), (berr ! 3, k4),
                               (berr ! 4, k5), (berr ! 5, k6), (berr ! 6, k7)]))
          in Inr [PTensor k7, PTensor x_sol, PTensor x_err]))"

definition DormandPrince45 :: "tableau \<Rightarrow> solver" where
  "DormandPrince45 tb = SolverTemplate 6 Adaptive (DormandPrince45_step tb)"

section \<open>The fixed-step driver (odeint.py, \<^verbatim>\<open>_fixed_odeint\<close>)\<close>

text \<open>
  The loop of \<^verbatim>\<open>_fixed_odeint\<close>. The current state \<^verbatim>\<open>x\<close> is whatever the second
  slot of the solver's tuple held, so it is a Python value; a solver is stepped from a
  tensor state, and a state that is not a tensor raises TypeError in the step's arithmetic.
\<close>

function fixed_loop ::
  "solver \<Rightarrow> vfield \<Rightarrow> real list \<Rightarrow> pyval \<Rightarrow> real \<Rightarrow> real \<Rightarrow> pyval list \<Rightarrow> nat
     \<Rightarrow> py_error + pyval list" where
  "fixed_loop slv f t_span x t dt sol steps =
     (if int steps \<le> int (length t_span) - 1 then
        bind_err (as_tensor x) (\<lambda>xt.
        bind_err (step slv f xt t dt PNone) (\<lambda>tup.
        bind_err (unpack3 tup) (\<lambda>(u, x', w).
          let sol' = sol @ [x'];
              t' = t + dt;
              dt' = (if int steps < int (length t_span) - 1
                     then t_span ! (steps + 1) - t' else dt)
          in fixed_loop slv f t_span x' t' dt' sol' (steps + 1))))
      else Inr sol)"
  by pat_completeness auto
termination
  by (relation "measure (\<lambda>(slv, f, t_span, x, t, dt, sol, steps). length t_span - steps)") auto

declare fixed_loop.simps [simp del]

definition fixed_odeint ::
  "vfield \<Rightarrow> tensor \<Rightarrow> real list \<Rightarrow> solver \<Rightarrow> py_error + (real list \<times> tensor list)" where
  "fixed_odeint f x t_span slv =
     (if length t_span < 2 then Inl IndexError
      else
        let t = t_span ! 0; dt = t_span ! 1 - t_span ! 0
        in bind_err (fixed_loop slv f t_span (PTensor x) t dt [PTensor x] 1) (\<lambda>sol.
           bind_err (torch_stack sol) (\<lambda>states. Inr (t_span, states))))"

section \<open>Step control (the helpers of utils.py)\<close>

text \<open>\<^verbatim>\<open>a[:d]\<close> on a tensor cuts the first axis; a 0-dimensional tensor cannot be sliced.\<close>

definition slice0 :: "nat option \<Rightarrow> tensor \<Rightarrow> py_error + tensor" where
  "slice0 d a =
     (case d of
        None \<Rightarrow> (case shape a of [] \<Rightarrow> Inl IndexError | n # rest \<Rightarrow> Inr a)
      | Some k \<Rightarrow>
          (case shape a of
             [] \<Rightarrow> Inl IndexError
           | n # rest \<Rightarrow> Inr (Tensor (min k n # rest) (take (min k n * prod_list rest) (data a)))))"

text \<open>
  Modelled from the spec: \<^verbatim>\<open>hairer_norm\<close> of utils.py, which is not among the sources.
  The spec reduces the scaled error by the root of the mean of the squares of its entries.
\<close>

definition hairer_norm :: "tensor \<Rightarrow> real" where
  "hairer_norm e = sqrt ((\<Sum>v \<leftarrow> data e. v\<^sup>2) / real (length (data e)))"

text \<open>
  Modelled from the spec: \<^verbatim>\<open>adapt_step\<close> of utils.py, which is not among the sources.
  The spec proposes \<^verbatim>\<open>factor = safety * r^(-1/order)\<close> clamped to
  \<^verbatim>\<open>[min_factor, max_factor]\<close> and \<^verbatim>\<open>dt_new = dt * factor\<close>. At \<^verbatim>\<open>r = 0\<close> the power is
  unbounded and the clamp gives \<^verbatim>\<open>max_factor\<close>.
\<close>

definition adapt_factor :: "real \<Rightarrow> real \<Rightarrow> real \<Rightarrow> real \<Rightarrow> nat \<Rightarrow> real" where
  "adapt_factor r sf minf maxf ord =
     (if r \<le> 0 then maxf
      else min maxf (max minf (sf * r powr (- 1 / real ord))))"

definition adapt_step :: "real \<Rightarrow> real \<Rightarrow> real \<Rightarrow> real \<Rightarrow> real \<Rightarrow> nat \<Rightarrow> real" where
  "adapt_step dt r sf minf maxf ord = dt * adapt_factor r sf minf maxf ord"

text \<open>
  The error block shared by \<^verbatim>\<open>_adaptive_odeint\<close> and \<^verbatim>\<open>odeint_hybrid\<close>:
  \<^verbatim>\<open>seminorm = (flag, state_dim)\<close> cuts \<^verbatim>\<open>x_err\<close>, \<^verbatim>\<open>x\<close> and \<^verbatim>\<open>x_new\<close> with
  \<^verbatim>\<open>[:state_dim]\<close> before the scaling.
\<close>

definition error_scaled :: "real \<Rightarrow> real \<Rightarrow> tensor \<Rightarrow> tensor \<Rightarrow> tensor \<Rightarrow> tensor" where
  "error_scaled atol rtol error x x_new =
     t_div error (t_sadd atol (t_smul rtol (t_max (t_abs x) (t_abs x_new))))"

definition error_ratio ::
  "bool \<times> nat option \<Rightarrow> real \<Rightarrow> real \<Rightarrow> tensor \<Rightarrow> pyval \<Rightarrow> pyval \<Rightarrow> py_error + real" where
  "error_ratio seminorm atol rtol x x_new x_err =
     (if fst seminorm then
        bind_err (as_tensor x_err) (\<lambda>x_err.
        bind_err (slice0 (snd seminorm) x_err) (\<lambda>error.
        bind_err (slice0 (snd seminorm) x) (\<lambda>xs.
        bind_err (as_tensor x_new) (\<lambda>x_new.
        bind_err (slice0 (snd seminorm) x_new) (\<lambda>xns.
          Inr (hairer_norm (error_scaled atol rtol error xs xns)))))))
      else
        (case x_new of
           PTensor x_new \<Rightarrow>
             bind_err (as_tensor x_err) (\<lambda>error.
               Inr (hairer_norm (error_scaled atol rtol error x x_new)))
         | _ \<Rightarrow> Inl AttributeError))"

section \<open>The adaptive driver (odeint.py, \<^verbatim>\<open>_adaptive_odeint\<close>)\<close>

text \<open>
  The interpolator object (interpolators.py is not among the sources): the driver reads
  \<^verbatim>\<open>bmid\<close> and calls \<^verbatim>\<open>fit\<close> and \<^verbatim>\<open>evaluate\<close>, which are taken as given.
\<close>

record interp =
  bmid :: "real list"
  fit :: "real \<Rightarrow> pyval \<Rightarrow> pyval \<Rightarrow> tensor \<Rightarrow> tensor \<Rightarrow> tensor \<Rightarrow> tensor list"
  evaluate :: "tensor list \<Rightarrow> real \<Rightarrow> real \<Rightarrow> real \<Rightarrow> tensor"

record aconfig =
  c_f :: vfield
  c_solver :: solver
  c_t_eval :: "real list"
  c_T :: real
  c_atol :: real
  c_rtol :: real
  c_interp :: "interp option"
  c_all_eval :: bool
  c_seminorm :: "bool \<times> nat option"

record astate =
  cur_t :: real
  cur_x :: tensor
  cur_dt :: real
  cur_k1 :: pyval
  ckpt_counter :: nat
  ckpt_flag :: bool
  dt_old :: real
  eval_times :: "real list"
  sol :: "tensor list"

text \<open>
  \<^verbatim>\<open>x_mid = x + dt * sum([bmid[i] * stages[i] for i in range(len(stages))])\<close>; the stages
  are a list of tensors, and \<^verbatim>\<open>bmid[i]\<close> raises IndexError when \<^verbatim>\<open>bmid\<close> is shorter.
\<close>

definition x_mid_of :: "interp \<Rightarrow> tensor \<Rightarrow> real \<Rightarrow> pyval \<Rightarrow> py_error + tensor" where
  "x_mid_of ip x dt stages =
     (case stages of
        PList ks \<Rightarrow>
          if length (bmid ip) < length ks then Inl IndexError
          else Inr (t_add x (t_smul dt (foldl t_add (t_smul 0 x) (map2 t_smul (bmid ip) ks))))
      | _ \<Rightarrow> Inl TypeError)"

text \<open>Checkpointing by interpolation: the inner \<^verbatim>\<open>while\<close> of an accepted step.\<close>

function interp_ckpt ::
  "interp \<Rightarrow> real list \<Rightarrow> real \<Rightarrow> real \<Rightarrow> tensor \<Rightarrow> tensor \<Rightarrow> pyval \<Rightarrow> pyval \<Rightarrow> pyval
     \<Rightarrow> nat \<Rightarrow> real list \<Rightarrow> tensor list \<Rightarrow> py_error + (nat \<times> real list \<times> tensor list)" where
  "interp_ckpt ip t_eval t dt x x_new k1 f_new stages c tms sl =
     (if c < length t_eval \<and> t + dt > t_eval ! c then
        bind_err (x_mid_of ip x dt stages) (\<lambda>x_mid.
          let coefs = fit ip dt k1 f_new x x_new x_mid;
              x_in = evaluate ip coefs t (t + dt) (t_eval ! c)
          in interp_ckpt ip t_eval t dt x x_new k1 f_new stages (c + 1)
               (tms @ [t_eval ! c]) (sl @ [x_in]))
      else Inr (c, tms, sl))"
  by pat_completeness auto
termination
  by (relation "measure (\<lambda>(ip, t_eval, t, dt, x, x_new, k1, f_new, stages, c, tms, sl).
        length t_eval - c)") auto

declare interp_ckpt.simps [simp del]

text \<open>
  One pass through the body of \<^verbatim>\<open>while t < T\<close>. The step size goes through three
  stages before the trial step: clamped at \<^verbatim>\<open>T\<close>, then (without an interpolator) cut to
  land on the next requested time, which saves the clamped size in \<^verbatim>\<open>dt_old\<close> and raises
  \<^verbatim>\<open>ckpt_flag\<close>.
\<close>

definition clamp_dt :: "aconfig \<Rightarrow> astate \<Rightarrow> real" where
  "clamp_dt cfg s = (if cur_t s + cur_dt s > c_T cfg then c_T cfg - cur_t s else cur_dt s)"

definition ckpt_clip :: "aconfig \<Rightarrow> astate \<Rightarrow> bool" where
  "ckpt_clip cfg s \<longleftrightarrow>
     ckpt_counter s < length (c_t_eval cfg) \<and>
     cur_t s + clamp_dt cfg s > c_t_eval cfg ! ckpt_counter s \<and>
     c_interp cfg = None"

definition trial_dt :: "aconfig \<Rightarrow> astate \<Rightarrow> real" where
  "trial_dt cfg s =
     (if ckpt_clip cfg s then c_t_eval cfg ! ckpt_counter s - cur_t s else clamp_dt cfg s)"

text \<open>
  The step size handed to \<^verbatim>\<open>adapt_step\<close>: \<^verbatim>\<open>dt_old - dt\<close> when the flag is up, the
  trial size otherwise.
\<close>

definition restored_dt :: "aconfig \<Rightarrow> astate \<Rightarrow> real" where
  "restored_dt cfg s =
     (if ckpt_clip cfg s then clamp_dt cfg s - trial_dt cfg s
      else if ckpt_flag s then dt_old s - trial_dt cfg s
      else trial_dt cfg s)"

definition adaptive_body :: "aconfig \<Rightarrow> astate \<Rightarrow> py_error + astate" where
  "adaptive_body cfg s =
     (let t = cur_t s; x = cur_x s; k1 = cur_k1 s; c = ckpt_counter s;
          slv = c_solver cfg; t_eval = c_t_eval cfg;
          dt_old' = (if ckpt_clip cfg s then clamp_dt cfg s else dt_old s);
          dt = trial_dt cfg s
      in
      bind_err (step slv (c_f cfg) x t dt k1) (\<lambda>tup.
      bind_err (unpack4 tup) (\<lambda>(f_new, x_new, x_err, stages).
      bind_err (error_ratio (c_seminorm cfg) (c_atol cfg) (c_rtol cfg) x x_new x_err) (\<lambda>ratio.
      bind_err (as_tensor x_new) (\<lambda>x_new.
      bind_err
        (if ratio \<le> 1 then
           bind_err
             (case c_interp cfg of
                None \<Rightarrow> Inr (c, eval_times s, sol s)
              | Some ip \<Rightarrow>
                  interp_ckpt ip t_eval t dt x x_new k1 f_new stages c (eval_times s) (sol s))
             (\<lambda>(c1, tms1, sol1).
                if c1 < length t_eval then
                  let hit = (t + dt = t_eval ! c1);
                      save = (hit \<or> c_all_eval cfg)
                  in Inr (s\<lparr> cur_t := t + dt, cur_x := x_new, cur_k1 := f_new,
                            ckpt_counter := (if hit then c1 + 1 else c1),
                            eval_times := (if save then tms1 @ [t + dt] else tms1),
                            sol := (if save then sol1 @ [x_new] else sol1) \<rparr>)
                else Inl IndexError)
         else Inr s)
        (\<lambda>s'.
           Inr (s'\<lparr> ckpt_flag := False, dt_old := dt_old',
                     cur_dt := adapt_step (restored_dt cfg s) ratio (safety slv) (min_factor slv)
                                 (max_factor slv) (order slv) \<rparr>)))))))"

partial_function (option) adaptive_loop :: "aconfig \<Rightarrow> astate \<Rightarrow> (py_error + astate) option" where
  "adaptive_loop cfg s =
     (if cur_t s < c_T cfg then
        (case adaptive_body cfg s of
           Inl e \<Rightarrow> Some (Inl e)
         | Inr s' \<Rightarrow> adaptive_loop cfg s')
      else Some (Inr s))"

definition adaptive_odeint ::
  "vfield \<Rightarrow> pyval \<Rightarrow> tensor \<Rightarrow> real \<Rightarrow> real list \<Rightarrow> solver \<Rightarrow> real \<Rightarrow> real \<Rightarrow> interp option
     \<Rightarrow> bool \<Rightarrow> bool \<times> nat option \<Rightarrow> (py_error + (real list \<times> tensor list)) option" where
  "adaptive_odeint f k1 x dt t_span slv atol rtol interpolator return_all_eval seminorm =
     (if t_span = [] then Some (Inl IndexError)
      else
        let cfg = \<lparr> c_f = f, c_solver = slv, c_t_eval = tl t_span, c_T = last t_span,
                    c_atol = atol, c_rtol = rtol, c_interp = interpolator,
                    c_all_eval = return_all_eval, c_seminorm = seminorm \<rparr>;
            s0 = \<lparr> cur_t = hd t_span, cur_x = x, cur_dt = dt, cur_k1 = k1,
                   ckpt_counter = 0, ckpt_flag = False, dt_old = 0,
                   eval_times = [hd t_span], sol = [x] \<rparr>
        in (case adaptive_loop cfg s0 of
              None \<Rightarrow> None
            | Some (Inl e) \<Rightarrow> Some (Inl e)
            | Some (Inr s) \<Rightarrow> Some (Inr (eval_times s, sol s))))"

section \<open>The entry point (odeint.py, \<^verbatim>\<open>odeint\<close>)\<close>

text \<open>
  \<^verbatim>\<open>odeint\<close> for a solver object and a one-dimensional \<^verbatim>\<open>t_span\<close>. The initial step
  heuristic \<^verbatim>\<open>init_step\<close> of utils.py is not among the sources and is a parameter.
  A result of \<^verbatim>\<open>None\<close> stands for a run whose adaptive loop never ends.
\<close>

definition odeint ::
  "(vfield \<Rightarrow> tensor \<Rightarrow> tensor \<Rightarrow> real \<Rightarrow> nat \<Rightarrow> real \<Rightarrow> real \<Rightarrow> real)
     \<Rightarrow> vfield \<Rightarrow> tensor \<Rightarrow> real list \<Rightarrow> solver \<Rightarrow> real \<Rightarrow> real \<Rightarrow> interp option
     \<Rightarrow> bool \<Rightarrow> bool \<times> nat option \<Rightarrow> (py_error + (real list \<times> tensor list)) option" where
  "odeint init_step f x t_span slv atol rtol interpolator return_all_eval seminorm =
     (if length t_span < 2 then Some (Inl IndexError)
      else
        let reversed = (t_span ! 1 < t_span ! 0);
            f_adj = (if reversed then (\<lambda>t x. t_neg (f (- t) x)) else f);
            t_span = (if reversed then map uminus t_span else t_span)
        in (case stepping_class slv of
              Fixed \<Rightarrow> Some (fixed_odeint f_adj x t_span slv)
            | Adaptive \<Rightarrow>
                let t = t_span ! 0;
                    k1 = f_adj t x;
                    dt = init_step f k1 x t (order slv) atol rtol
                in adaptive_odeint f_adj (PTensor k1) x dt t_span slv atol rtol
                     interpolator return_all_eval seminorm))"

section \<open>The hybrid driver (odeint.py, \<^verbatim>\<open>odeint_hybrid\<close>)\<close>

text \<open>
  An event callback has \<^verbatim>\<open>check_event(t, x)\<close> and \<^verbatim>\<open>jump_map(t, x)\<close>. The class
  \<^verbatim>\<open>EventState\<close> of utils.py is not among the sources; the driver reads only its list
  \<^verbatim>\<open>evid\<close> of flags, so an event state is that list.
\<close>

record callback =
  check_event :: "real \<Rightarrow> tensor \<Rightarrow> bool"
  jump_map :: "real \<Rightarrow> tensor \<Rightarrow> tensor"

text \<open>
  \<^verbatim>\<open>sum([(a_ != b_) & (b_ == False) for a_, b_ in zip(new.evid, old.evid)])\<close>: the flags
  that changed from \<^verbatim>\<open>False\<close>.
\<close>

definition triggered :: "bool list \<Rightarrow> bool list \<Rightarrow> nat" where
  "triggered new old = length (filter (\<lambda>(a, b). a \<noteq> b \<and> b = False) (zip new old))"

text \<open>
  \<^verbatim>\<open>min([i for i, v in enumerate(evid) if v == True])\<close>: the indices are listed in
  increasing order, so the least is the first; \<^verbatim>\<open>min\<close> of an empty list raises ValueError.
\<close>

definition first_true :: "bool list \<Rightarrow> py_error + nat" where
  "first_true evid =
     (case filter (\<lambda>i. evid ! i) [0 ..< length evid] of
        [] \<Rightarrow> Inl ValueError
      | i # rest \<Rightarrow> Inr i)"

record hconfig =
  h_f :: vfield
  h_solver :: solver
  h_t_eval :: "real list"
  h_T :: real
  h_j_span :: nat
  h_callbacks :: "callback list"
  h_atol :: real
  h_rtol :: real
  h_event_tol :: real
  h_seminorm :: "bool \<times> nat option"

record hstate = astate +
  jnum :: nat

definition check_all :: "callback list \<Rightarrow> real \<Rightarrow> tensor \<Rightarrow> bool list" where
  "check_all cbs t x = map (\<lambda>cb. check_event cb t x) cbs"

text \<open>
  The bisection \<^verbatim>\<open>while niters < max_iters and event_tol < dt_inner\<close> with
  \<^verbatim>\<open>max_iters = 100\<close>. It carries the inner start point, the inner step size, the first
  slope, the event flags of the last trial and the iteration count; \<open>dt\<close> is the step size
  of the outer trial step, to which \<^verbatim>\<open>dt_inner\<close> is reset when the start point advances.
\<close>

function bisect ::
  "hconfig \<Rightarrow> real \<Rightarrow> real \<Rightarrow> real \<Rightarrow> tensor \<Rightarrow> pyval \<Rightarrow> bool list \<Rightarrow> nat
     \<Rightarrow> py_error + (real \<times> real \<times> tensor \<times> pyval \<times> bool list \<times> nat)" where
  "bisect cfg dt t_inner dt_inner x_inner k1 new_states niters =
     (if niters < 100 \<and> h_event_tol cfg < dt_inner then
        (let dt_inner = dt_inner / 2
         in bind_err (step (h_solver cfg) (h_f cfg) x_inner t_inner dt_inner k1) (\<lambda>tup.
            bind_err (unpack4 tup) (\<lambda>(f_new, x', x_err, w).
            bind_err (if h_callbacks cfg = [] then Inr x_inner else as_tensor x') (\<lambda>xc.
              let new_states = check_all (h_callbacks cfg) (t_inner + dt_inner) xc;
                  old_states = replicate (length (h_callbacks cfg)) False
              in if triggered new_states old_states = 0
                 then bind_err (as_tensor x') (\<lambda>x'.
                        bisect cfg dt (t_inner + dt_inner) dt x' f_new new_states (niters + 1))
                 else bisect cfg dt t_inner dt_inner x_inner k1 new_states (niters + 1)))))
      else Inr (t_inner, dt_inner, x_inner, k1, new_states, niters))"
  by pat_completeness auto
termination
  by (relation "measure (\<lambda>(cfg, dt, t_inner, dt_inner, x_inner, k1, new_states, niters).
        100 - niters)") auto

declare bisect.simps [simp del]

text \<open>
  One pass through the body of \<^verbatim>\<open>while t < T and jnum < j_span\<close>. The step size is
  clamped at \<^verbatim>\<open>T\<close>; when the clamped step passes the next requested time it is cut to
  land on it, and \<^verbatim>\<open>ckpt_counter\<close> is incremented there, before the trial step.
\<close>

definition h_clamp_dt :: "hconfig \<Rightarrow> hstate \<Rightarrow> real" where
  "h_clamp_dt cfg s = (if cur_t s + cur_dt s > h_T cfg then h_T cfg - cur_t s else cur_dt s)"

definition h_clip :: "hconfig \<Rightarrow> hstate \<Rightarrow> bool" where
  "h_clip cfg s \<longleftrightarrow>
     ckpt_counter s < length (h_t_eval cfg) \<and>
     cur_t s + h_clamp_dt cfg s > h_t_eval cfg ! ckpt_counter s"

definition h_trial_dt :: "hconfig \<Rightarrow> hstate \<Rightarrow> real" where
  "h_trial_dt cfg s =
     (if h_clip cfg s then h_t_eval cfg ! ckpt_counter s - cur_t s else h_clamp_dt cfg s)"

definition hybrid_body :: "hconfig \<Rightarrow> hstate \<Rightarrow> py_error + hstate" where
  "hybrid_body cfg s =
     (let t = cur_t s; x = cur_x s; k1 = cur_k1 s;
          slv = h_solver cfg; cbs = h_callbacks cfg;
          clip = h_clip cfg s;
          dt_old' = (if clip then h_clamp_dt cfg s else dt_old s);
          flag = (clip \<or> ckpt_flag s);
          c = (if clip then ckpt_counter s + 1 else ckpt_counter s);
          dt = h_trial_dt cfg s;
          old_states = replicate (length cbs) False
      in
      bind_err (step slv (h_f cfg) x t dt k1) (\<lambda>tup.
      bind_err (unpack4 tup) (\<lambda>(f_new, x_new, x_err, w).
      bind_err (if cbs = [] then Inr x else as_tensor x_new) (\<lambda>xc.
        let new_states = check_all cbs (t + dt) xc
        in if triggered new_states old_states > 0 then
             bind_err (bisect cfg dt t dt x k1 new_states 0)
               (\<lambda>(t_inner, dt_inner, x_inner, k1', new_states, niters).
             bind_err (first_true new_states) (\<lambda>i.
               let x_post = jump_map (cbs ! i) t_inner x_inner
               in Inr (s\<lparr> cur_t := t_inner, cur_x := x_post, cur_dt := dt, cur_k1 := PNone,
                         ckpt_counter := c, ckpt_flag := flag, dt_old := dt_old',
                         eval_times := eval_times s @ [t_inner, t_inner],
                         sol := sol s @ [x_inner, x_post] \<rparr>)))
           else
             bind_err (error_ratio (h_seminorm cfg) (h_atol cfg) (h_rtol cfg) x x_new x_err)
               (\<lambda>ratio.
             bind_err (as_tensor x_new) (\<lambda>x_new.
               let s1 = (if ratio \<le> 1
                         then s\<lparr> cur_t := t + dt, cur_x := x_new, cur_k1 := f_new,
                                 eval_times := eval_times s @ [t + dt],
                                 sol := sol s @ [x_new] \<rparr>
                         else s);
                   dt = (if flag then dt_old' - dt else dt)
               in Inr (s1\<lparr> ckpt_counter := c, ckpt_flag := False, dt_old := dt_old',
                          cur_dt := adapt_step dt ratio (safety slv) (min_factor slv)
                                      (max_factor slv) (order slv) \<rparr>)))))))"

partial_function (option) hybrid_loop :: "hconfig \<Rightarrow> hstate \<Rightarrow> (py_error + hstate) option" where
  "hybrid_loop cfg s =
     (if cur_t s < h_T cfg \<and> jnum s < h_j_span cfg then
        (case hybrid_body cfg s of
           Inl e \<Rightarrow> Some (Inl e)
         | Inr s' \<Rightarrow> hybrid_loop cfg s')
      else Some (Inr s))"

text \<open>
  \<^verbatim>\<open>odeint_hybrid\<close> for a solver object; \<open>priority_jump\<close> stands for
  \<^verbatim>\<open>priority == 'jump'\<close>, and the initial step heuristic is a parameter as in \<open>odeint\<close>.
\<close>

definition odeint_hybrid ::
  "(vfield \<Rightarrow> tensor \<Rightarrow> tensor \<Rightarrow> real \<Rightarrow> nat \<Rightarrow> real \<Rightarrow> real \<Rightarrow> real)
     \<Rightarrow> vfield \<Rightarrow> tensor \<Rightarrow> real list \<Rightarrow> nat \<Rightarrow> solver \<Rightarrow> callback list \<Rightarrow> real \<Rightarrow> real
     \<Rightarrow> real \<Rightarrow> bool \<Rightarrow> bool \<times> nat option \<Rightarrow> (py_error + (real list \<times> tensor list)) option" where
  "odeint_hybrid init_step f x t_span j_span slv cbs atol rtol event_tol priority_jump seminorm =
     (if t_span = [] then Some (Inl IndexError)
      else
        let t = hd t_span;
            new_states = check_all cbs t x;
            fire = (priority_jump \<and> triggered new_states (replicate (length cbs) False) > 0)
        in (case (if fire then first_true new_states else Inr 0) of
              Inl e \<Rightarrow> Some (Inl e)
            | Inr i \<Rightarrow>
                let x = (if fire then jump_map (cbs ! i) t x else x);
                    k1 = f t x;
                    dt = init_step f k1 x t (order slv) atol rtol;
                    cfg = \<lparr> h_f = f, h_solver = slv, h_t_eval = tl t_span, h_T = last t_span,
                            h_j_span = j_span, h_callbacks = cbs, h_atol = atol, h_rtol = rtol,
                            h_event_tol = event_tol, h_seminorm = seminorm \<rparr>;
                    s0 = \<lparr> cur_t = t, cur_x = x, cur_dt = dt, cur_k1 = PTensor k1,
                           ckpt_counter = 0, ckpt_flag = False, dt_old = 0,
                           eval_times = [t], sol = [x], jnum = (if fire then 1 else 0) \<rparr>
                in (case hybrid_loop cfg s0 of
                      None \<Rightarrow> None
                    | Some (Inl e) \<Rightarrow> Some (Inl e)
                    | Some (Inr s) \<Rightarrow> Some (Inr (eval_times s, sol s)))))"

section \<open>Multiple shooting (solvers.py, \<^verbatim>\<open>MSZero\<close>; odeint.py, \<^verbatim>\<open>odeint_mshooting\<close>)\<close>

text \<open>
  The shooting parameters \<^verbatim>\<open>B\<close> are kept as the list of their slices along the first
  axis. \<^verbatim>\<open>B[i-1:]\<close> is handed to the integrator as one batched tensor, and the final state
  is read back by slices.
\<close>

definition stack_rows :: "tensor list \<Rightarrow> tensor" where
  "stack_rows rs =
     Tensor (length rs # (case rs of [] \<Rightarrow> [] | r # _ \<Rightarrow> shape r)) (concat (map data rs))"

definition unstack :: "tensor \<Rightarrow> tensor list" where
  "unstack a =
     (case shape a of
        [] \<Rightarrow> []
      | n # rest \<Rightarrow>
          map (\<lambda>i. Tensor rest (take (prod_list rest) (drop (i * prod_list rest) (data a))))
              [0 ..< n])"

text \<open>\<^verbatim>\<open>torch.linspace(a, b, n)\<close>.\<close>

definition linspace :: "real \<Rightarrow> real \<Rightarrow> nat \<Rightarrow> real list" where
  "linspace a b n =
     (if n = 1 then [a] else map (\<lambda>k. a + real k * (b - a) / real (n - 1)) [0 ..< n])"

type_synonym integrator =
  "vfield \<Rightarrow> tensor \<Rightarrow> real list \<Rightarrow> solver \<Rightarrow> py_error + (real list \<times> tensor list)"

text \<open>\<^verbatim>\<open>odeint_func(f, x, sub_t_span, solver=...)[1][-1]\<close>: the last of the returned states.\<close>

definition final_state :: "integrator \<Rightarrow> vfield \<Rightarrow> tensor \<Rightarrow> real list \<Rightarrow> solver \<Rightarrow> py_error + tensor" where
  "final_state odeint_func f x sub_t_span slv =
     bind_err (odeint_func f x sub_t_span slv) (\<lambda>(tms, states).
       if states = [] then Inl IndexError else Inr (last states))"

record ms_solver =
  coarse_method :: solver
  fine_method :: solver

text \<open>\<^verbatim>\<open>MSZero()\<close> with its defaults \<^verbatim>\<open>'euler'\<close> and \<^verbatim>\<open>'rk4'\<close>, for a given RK4 tableau.\<close>

definition MSZero :: "tableau \<Rightarrow> ms_solver" where
  "MSZero tb = \<lparr> coarse_method = Euler, fine_method = RungeKutta4 tb \<rparr>"

text \<open>The inner \<^verbatim>\<open>for m in range(i, n_subinterv)\<close> of a round.\<close>

fun ms_inner ::
  "integrator \<Rightarrow> vfield \<Rightarrow> solver \<Rightarrow> real list \<Rightarrow> tensor list \<Rightarrow> tensor list \<Rightarrow> nat
     \<Rightarrow> tensor \<Rightarrow> tensor list \<Rightarrow> nat list \<Rightarrow> py_error + tensor list" where
  "ms_inner odeint_func f coarse sub B_coarse B_fine i B_in B_out [] = Inr B_out"
| "ms_inner odeint_func f coarse sub B_coarse B_fine i B_in B_out (m # ms) =
     bind_err (final_state odeint_func f B_in sub coarse) (\<lambda>y.
       if m - i < length B_coarse \<and> m - i < length B_fine \<and> m < length B_out then
         let B_in = t_add (t_sub y (B_coarse ! (m - i))) (B_fine ! (m - i))
         in ms_inner odeint_func f coarse sub B_coarse B_fine i B_in (B_out[m := B_in]) ms
       else Inl IndexError)"

text \<open>One round of \<^verbatim>\<open>while i <= maxiter\<close>, for the value of \<open>i\<close> after \<^verbatim>\<open>i += 1\<close>.\<close>

definition ms_round ::
  "integrator \<Rightarrow> vfield \<Rightarrow> ms_solver \<Rightarrow> real list \<Rightarrow> nat \<Rightarrow> tensor list \<Rightarrow> nat
     \<Rightarrow> py_error + tensor list" where
  "ms_round odeint_func f ms sub n_subinterv B i =
     bind_err (final_state odeint_func f (stack_rows (drop (i - 1) B)) sub (coarse_method ms))
       (\<lambda>Bc.
     bind_err (final_state odeint_func f (stack_rows (drop (i - 1) B)) sub (fine_method ms))
       (\<lambda>Bf.
       let B_coarse = unstack Bc; B_fine = unstack Bf;
           B_out = take i B @ map (t_smul 0) (drop i B)
       in if i - 1 < length B
          then ms_inner odeint_func f (coarse_method ms) sub B_coarse B_fine i (B ! (i - 1))
                 B_out [i ..< n_subinterv]
          else Inl IndexError))"

function ms_loop ::
  "integrator \<Rightarrow> vfield \<Rightarrow> ms_solver \<Rightarrow> real list \<Rightarrow> nat \<Rightarrow> int \<Rightarrow> nat \<Rightarrow> tensor list
     \<Rightarrow> py_error + tensor list" where
  "ms_loop odeint_func f ms sub n_subinterv maxiter i B =
     (if int i \<le> maxiter then
        bind_err (ms_round odeint_func f ms sub n_subinterv B (i + 1)) (\<lambda>B_out.
          ms_loop odeint_func f ms sub n_subinterv maxiter (i + 1) B_out)
      else Inr B)"
  by pat_completeness auto
termination
  by (relation "measure (\<lambda>(odeint_func, f, ms, sub, n_subinterv, maxiter, i, B).
        nat (maxiter + 1 - int i))") auto

declare ms_loop.simps [simp del]

definition root_solve ::
  "ms_solver \<Rightarrow> integrator \<Rightarrow> vfield \<Rightarrow> tensor \<Rightarrow> real list \<Rightarrow> tensor list \<Rightarrow> nat \<Rightarrow> int
     \<Rightarrow> py_error + tensor list" where
  "root_solve ms odeint_func f x t_span B fine_steps maxiter =
     (if length t_span < 2 then Inl IndexError
      else
        let dt = t_span ! 1 - t_span ! 0;
            n_subinterv = length t_span - 1;
            sub_t_span = linspace 0 dt fine_steps
        in ms_loop odeint_func f ms sub_t_span n_subinterv maxiter 0 B)"

text \<open>
  \<^verbatim>\<open>odeint_mshooting\<close> for a multiple-shooting solver object; \<^verbatim>\<open>odeint\<close> is called with its
  default tolerances. The integrator handed to \<^verbatim>\<open>root_solve\<close> is \<^verbatim>\<open>_fixed_odeint\<close>.
\<close>

definition odeint_mshooting ::
  "(vfield \<Rightarrow> tensor \<Rightarrow> tensor \<Rightarrow> real \<Rightarrow> nat \<Rightarrow> real \<Rightarrow> real \<Rightarrow> real)
     \<Rightarrow> vfield \<Rightarrow> tensor \<Rightarrow> real list \<Rightarrow> ms_solver \<Rightarrow> tensor list option \<Rightarrow> nat \<Rightarrow> int
     \<Rightarrow> (py_error + (real list \<times> tensor list)) option" where
  "odeint_mshooting init_step f x t_span ms B0 fine_steps maxiter =
     (case (case B0 of
              None \<Rightarrow>
                (case odeint init_step f x t_span (coarse_method ms) (1 / 1000) (1 / 1000) None
                        False (False, None) of
                   None \<Rightarrow> None
                 | Some (Inl e) \<Rightarrow> Some (Inl e)
                 | Some (Inr (tms, states)) \<Rightarrow> Some (Inr states))
            | Some B \<Rightarrow> Some (Inr B)) of
        None \<Rightarrow> None
      | Some (Inl e) \<Rightarrow> Some (Inl e)
      | Some (Inr B) \<Rightarrow>
          Some (bind_err (root_solve ms fixed_odeint f x t_span B fine_steps maxiter)
                  (\<lambda>B. Inr (t_span, B))))"

section \<open>Concrete inputs\<close>

text \<open>
  Vector fields, states and solver objects on which the definitions are run. \<^verbatim>\<open>odeint\<close>
  takes any object that has the solver attributes, so a caller may pass a solver of their
  own: \<open>slot2_solver\<close> is an Euler solver whose \<^verbatim>\<open>step\<close> returns the new state in the
  second slot of its tuple, the slot \<^verbatim>\<open>_fixed_odeint\<close> reads.
\<close>

definition vf_id :: vfield where
  "vf_id t x = x"

definition vf_zero :: vfield where
  "vf_zero t x = t_smul 0 x"

definition x_one :: tensor where
  "x_one = Tensor [1] [1]"

definition init_step_one ::
  "vfield \<Rightarrow> tensor \<Rightarrow> tensor \<Rightarrow> real \<Rightarrow> nat \<Rightarrow> real \<Rightarrow> real \<Rightarrow> real" where
  "init_step_one f k1 x t ord atol rtol = 1"

definition slot2_step ::
  "vfield \<Rightarrow> tensor \<Rightarrow> real \<Rightarrow> real \<Rightarrow> pyval \<Rightarrow> py_error + pyval list" where
  "slot2_step f x t dt k1 = Inr [PNone, PTensor (t_add x (t_smul dt (f t x))), PNone]"

definition slot2_solver :: solver where
  "slot2_solver = SolverTemplate 1 Fixed slot2_step"

text \<open>The coefficients of Dormand and Prince, with the embedded fourth-order weights as \<^verbatim>\<open>berr\<close>.\<close>

definition dopri5_std :: tableau where
  "dopri5_std =
     \<lparr> tb_c = [1/5, 3/10, 4/5, 8/9, 1, 1],
       tb_a = [[1/5],
               [3/40, 9/40],
               [44/45, -56/15, 32/9],
               [19372/6561, -25360/2187, 64448/6561, -212/729],
               [9017/3168, -355/33, 46732/5247, 49/176, -5103/18656],
               [35/384, 0, 500/1113, 125/192, -2187/6784, 11/84]],
       tb_bsol = [35/384, 0, 500/1113, 125/192, -2187/6784, 11/84, 0],
       tb_berr = [5179/57600, 0, 7571/16695, 393/640, -92097/339200, 187/2100, 1/40] \<rparr>"

text \<open>
  A caller's adaptive solver whose \<^verbatim>\<open>step\<close> returns the four slots
  \<^verbatim>\<open>(k_last, x_sol, x_err, stages)\<close> that \<^verbatim>\<open>_adaptive_odeint\<close> and \<^verbatim>\<open>odeint_hybrid\<close>
  unpack: an Euler step whose error estimate is \<^verbatim>\<open>4 * dt\<close> in every entry.
\<close>

definition est_step ::
  "vfield \<Rightarrow> tensor \<Rightarrow> real \<Rightarrow> real \<Rightarrow> pyval \<Rightarrow> py_error + pyval list" where
  "est_step f x t dt k1 =
     (let x_new = t_add x (t_smul dt (f t x))
      in Inr [PTensor (f (t + dt) x_new), PTensor x_new, PTensor (t_map (\<lambda>v. 4 * dt) x),
              PList []])"

definition est_solver :: solver where
  "est_solver = SolverTemplate 1 Adaptive est_step"

text \<open>Adaptive runs on \<^verbatim>\<open>t_span = [0, 1/4, 2]\<close> and \<^verbatim>\<open>[0, 1/2, 2]\<close>, from a first step size.\<close>

definition cfg_quarter :: aconfig where
  "cfg_quarter =
     \<lparr> c_f = vf_zero, c_solver = est_solver, c_t_eval = [1/4, 2], c_T = 2,
       c_atol = 1, c_rtol = 0, c_interp = None, c_all_eval = False,
       c_seminorm = (False, None) \<rparr>"

definition cfg_half :: aconfig where
  "cfg_half = cfg_quarter\<lparr> c_t_eval := [1/2, 2] \<rparr>"

definition s_init :: "real \<Rightarrow> astate" where
  "s_init dt =
     \<lparr> cur_t = 0, cur_x = x_one, cur_dt = dt, cur_k1 = PNone, ckpt_counter = 0,
       ckpt_flag = False, dt_old = 0, eval_times = [0], sol = [x_one] \<rparr>"

text \<open>
  The reading of the spec, for comparison with \<open>slice0\<close>: the leading \<open>d\<close> components
  of the state dimension, \<^verbatim>\<open>a[..., :d]\<close>, which cuts the last axis and keeps every batch row.
\<close>

definition last_lead :: "nat \<Rightarrow> tensor \<Rightarrow> tensor" where
  "last_lead d a =
     (case shape a of
        [] \<Rightarrow> a
      | sh \<Rightarrow>
          let D = last sh
          in Tensor (butlast sh @ [min d D])
               (concat (map (\<lambda>i. take d (take D (drop (i * D) (data a))))
                            [0 ..< length (data a) div D])))"

text \<open>Batched error estimates of shape \<^verbatim>\<open>[2, 2]\<close>.\<close>

definition z22 :: tensor where
  "z22 = Tensor [2, 2] [0, 0, 0, 0]"

definition e22 :: tensor where
  "e22 = Tensor [2, 2] [0, 3, 0, 0]"

text \<open>
  A hybrid run on \<^verbatim>\<open>t_span = [0, 10]\<close> with first step size 3 and one callback whose
  indicator holds at \<^verbatim>\<open>t = 3\<close> only.
\<close>

definition cb_at3 :: callback where
  "cb_at3 = \<lparr> check_event = (\<lambda>t x. t = 3), jump_map = (\<lambda>t x. x) \<rparr>"

definition init_step_three ::
  "vfield \<Rightarrow> tensor \<Rightarrow> tensor \<Rightarrow> real \<Rightarrow> nat \<Rightarrow> real \<Rightarrow> real \<Rightarrow> real" where
  "init_step_three f k1 x t ord atol rtol = 3"

definition hcfg_event :: hconfig where
  "hcfg_event =
     \<lparr> h_f = vf_zero, h_solver = est_solver, h_t_eval = [10], h_T = 10, h_j_span = 1,
       h_callbacks = [cb_at3], h_atol = 1, h_rtol = 0, h_event_tol = 1 / 10000,
       h_seminorm = (False, None) \<rparr>"

definition hs_init :: "real \<Rightarrow> hstate" where
  "hs_init dt =
     \<lparr> cur_t = 0, cur_x = x_one, cur_dt = dt, cur_k1 = PTensor (vf_zero 0 x_one),
       ckpt_counter = 0, ckpt_flag = False, dt_old = 0, eval_times = [0], sol = [x_one],
       jnum = 0 \<rparr>"

text \<open>
  A hybrid run without callbacks on \<^verbatim>\<open>t_span = [0, 1/2, 1]\<close> from the first step size 1,
  with a caller's adaptive solver whose error estimate is \<open>9/5\<close> for a step of size
  \<open>1/2\<close> and \<open>9/10\<close> for any other. \<open>hs_at\<close> is the state of the run at a time, step
  size, checkpoint counter, saved step size and list of recorded times.
\<close>

definition gate_step ::
  "vfield \<Rightarrow> tensor \<Rightarrow> real \<Rightarrow> real \<Rightarrow> pyval \<Rightarrow> py_error + pyval list" where
  "gate_step f x t dt k1 =
     (let x_new = t_add x (t_smul dt (f t x))
      in Inr [PTensor (f (t + dt) x_new), PTensor x_new,
              PTensor (t_map (\<lambda>v. if dt = 1 / 2 then 9 / 5 else 9 / 10) x), PList []])"

definition gate_solver :: solver where
  "gate_solver = SolverTemplate 1 Adaptive gate_step"

definition hcfg_gate :: hconfig where
  "hcfg_gate =
     \<lparr> h_f = vf_zero, h_solver = gate_solver, h_t_eval = [1 / 2, 1], h_T = 1, h_j_span = 1,
       h_callbacks = [], h_atol = 1, h_rtol = 0, h_event_tol = 1 / 10000,
       h_seminorm = (False, None) \<rparr>"

definition hs_at :: "real \<Rightarrow> real \<Rightarrow> nat \<Rightarrow> real \<Rightarrow> real list \<Rightarrow> hstate" where
  "hs_at t dt c dto tms =
     \<lparr> cur_t = t, cur_x = x_one, cur_dt = dt, cur_k1 = PTensor (vf_zero 0 x_one),
       ckpt_counter = c, ckpt_flag = False, dt_old = dto, eval_times = tms,
       sol = map (\<lambda>t. x_one) tms, jnum = 0 \<rparr>"

text \<open>
  For comparison with \<open>ms_loop\<close>: \<open>n\<close> rounds of the update, numbered from \<open>i + 1\<close>.
\<close>

primrec ms_iter ::
  "integrator \<Rightarrow> vfield \<Rightarrow> ms_solver \<Rightarrow> real list \<Rightarrow> nat \<Rightarrow> nat \<Rightarrow> nat \<Rightarrow> tensor list
     \<Rightarrow> py_error + tensor list" where
  "ms_iter odeint_func f ms sub n_subinterv 0 i B = Inr B"
| "ms_iter odeint_func f ms sub n_subinterv (Suc n) i B =
     bind_err (ms_round odeint_func f ms sub n_subinterv B (i + 1)) (\<lambda>B_out.
       ms_iter odeint_func f ms sub n_subinterv n (i + 1) B_out)"

text \<open>
  Shooting parameters for three grid points, and a multiple-shooting solver whose coarse and
  fine methods are the solver \<open>slot2_solver\<close>, with which \<^verbatim>\<open>_fixed_odeint\<close> returns.
\<close>

definition B3 :: "tensor list" where
  "B3 = [Tensor [1] [1], Tensor [1] [2], Tensor [1] [3]]"

definition ms_slot2 :: ms_solver where
  "ms_slot2 = \<lparr> coarse_method = slot2_solver, fine_method = slot2_solver \<rparr>"

text \<open>
  The same runs with \<^verbatim>\<open>rtol = 1\<close>, so that the tolerance scale is \<^verbatim>\<open>1 + max(|x|, |x_new|)\<close>,
  on \<^verbatim>\<open>t_span = [0, d, 2]\<close>.
\<close>

definition cfg_scaled :: "real \<Rightarrow> aconfig" where
  "cfg_scaled d = cfg_quarter\<lparr> c_t_eval := [d, 2], c_rtol := 1 \<rparr>"

text \<open>
  A caller's adaptive solver whose error estimate is \<^verbatim>\<open>dt * x\<close>, a batched state of shape
  \<^verbatim>\<open>[2, 2]\<close>, and an adaptive and a hybrid run from it with \<^verbatim>\<open>seminorm = (True, 1)\<close>.
\<close>

definition echo_step ::
  "vfield \<Rightarrow> tensor \<Rightarrow> real \<Rightarrow> real \<Rightarrow> pyval \<Rightarrow> py_error + pyval list" where
  "echo_step f x t dt k1 =
     (let x_new = t_add x (t_smul dt (f t x))
      in Inr [PTensor (f (t + dt) x_new), PTensor x_new, PTensor (t_smul dt x), PList []])"

definition echo_solver :: solver where
  "echo_solver = SolverTemplate 1 Adaptive echo_step"

definition xb22 :: tensor where
  "xb22 = Tensor [2, 2] [1, 1, 7, 9]"

definition cfg_semi :: aconfig where
  "cfg_semi =
     \<lparr> c_f = vf_zero, c_solver = echo_solver, c_t_eval = [1/4, 2], c_T = 2,
       c_atol = 1, c_rtol = 1, c_interp = None, c_all_eval = False,
       c_seminorm = (True, Some 1) \<rparr>"

definition s_semi :: astate where
  "s_semi =
     \<lparr> cur_t = 0, cur_x = xb22, cur_dt = 1, cur_k1 = PNone, ckpt_counter = 0,
       ckpt_flag = False, dt_old = 0, eval_times = [0], sol = [xb22] \<rparr>"

definition hcfg_semi :: hconfig where
  "hcfg_semi =
     \<lparr> h_f = vf_zero, h_solver = echo_solver, h_t_eval = [1/4, 2], h_T = 2, h_j_span = 1,
       h_callbacks = [], h_atol = 1, h_rtol = 1, h_event_tol = 1 / 10000,
       h_seminorm = (True, Some 1) \<rparr>"

definition hs_semi :: hstate where
  "hs_semi =
     \<lparr> cur_t = 0, cur_x = xb22, cur_dt = 1, cur_k1 = PNone, ckpt_counter = 0,
       ckpt_flag = False, dt_old = 0, eval_times = [0], sol = [xb22], jnum = 0 \<rparr>"

text \<open>
  A hybrid run on \<^verbatim>\<open>t_span = [0, 1, 2]\<close> with \<^verbatim>\<open>event_tol = 1/4\<close> and one callback whose
  indicator holds from \<^verbatim>\<open>t = 1\<close> on.
\<close>

definition cb_after1 :: callback where
  "cb_after1 = \<lparr> check_event = (\<lambda>t x. 1 \<le> t), jump_map = (\<lambda>t x. x) \<rparr>"

definition hcfg_jump :: hconfig where
  "hcfg_jump =
     \<lparr> h_f = vf_zero, h_solver = est_solver, h_t_eval = [1, 2], h_T = 2, h_j_span = 1,
       h_callbacks = [cb_after1], h_atol = 1, h_rtol = 0, h_event_tol = 1 / 4,
       h_seminorm = (False, None) \<rparr>"

section \<open>Properties\<close>

lemmas tensor_ops =
  t_add_def t_sub_def t_smul_def t_map_def t_zip_def t_neg_def t_abs_def t_div_def
  t_max_def t_sadd_def

lemmas py_ops = bind_err_def as_tensor_def unpack3_def unpack4_def slope1_def

lemma dopri5_std_shape: "dopri5_shape dopri5_std"
  unfolding dopri5_shape_def dopri5_std_def
  by (simp add: less_Suc_eq numeral_eq_Suc All_less_Suc)

subsection \<open>The fixed-step driver and the tuples of the fixed-step solvers\<close>

text \<open>
  With the Euler solver of solvers.py the fixed-step driver never returns a result:
  \<^verbatim>\<open>Euler.step\<close> returns \<^verbatim>\<open>(None, None, x_sol)\<close> and the driver takes the second slot as
  the new state, so \<^verbatim>\<open>None\<close> is appended and either the next step or the final
  \<^verbatim>\<open>torch.stack\<close> raises.
\<close>

lemma fixed_odeint_Euler_fails: "\<exists>e. fixed_odeint f x t_span Euler = Inl e"
proof (cases "length t_span < 2")
  case True
  then show ?thesis by (simp add: fixed_odeint_def)
next
  case False
  show ?thesis
  proof (cases "length t_span = 2")
    case True
    then show ?thesis
      by (simp add: fixed_odeint_def fixed_loop.simps Let_def Euler_def SolverTemplate_def
            Euler_step_def py_ops)
  next
    case F2: False
    with False have "3 \<le> length t_span" by simp
    then show ?thesis
      by (simp add: fixed_odeint_def fixed_loop.simps Let_def Euler_def SolverTemplate_def
            Euler_step_def py_ops)
  qed
qed

text \<open>
  For a solver whose \<^verbatim>\<open>step\<close> returns the new state in the second slot, the driver
  returns the grid it was given and one state per grid point, the first being \<^verbatim>\<open>x\<close>.
\<close>

lemma torch_stack_tensors: "torch_stack (map PTensor xs) = Inr xs"
  by (induction xs) simp_all

lemma fixed_loop_conforming:
  assumes conf: "\<And>x t dt. \<exists>a x' c. step slv f x t dt PNone = Inr [a, PTensor x', c]"
  shows "1 \<le> steps \<Longrightarrow> steps \<le> length t_span \<Longrightarrow>
         \<exists>rest. fixed_loop slv f t_span (PTensor x) t dt (map PTensor sl) steps
                  = Inr (map PTensor (sl @ rest)) \<and> length rest = length t_span - steps"
proof (induction "length t_span - steps" arbitrary: x t dt sl steps)
  case 0
  then have "\<not> int steps \<le> int (length t_span) - 1" by simp
  then show ?case using 0 by (simp add: fixed_loop.simps)
next
  case (Suc k)
  then have lt: "int steps \<le> int (length t_span) - 1" by simp
  obtain a x' c where st: "step slv f x t dt PNone = Inr [a, PTensor x', c]"
    using conf by blast
  have k: "k = length t_span - (steps + 1)" using Suc.hyps(2) by simp
  have le: "steps + 1 \<le> length t_span" "1 \<le> steps + 1" using Suc.hyps(2) by simp_all
  have lt': "steps < length t_span" using Suc.hyps(2) by simp
  let ?t' = "t + dt"
  let ?dt' = "if int steps < int (length t_span) - 1 then t_span ! (steps + 1) - ?t' else dt"
  have unf: "fixed_loop slv f t_span (PTensor x) t dt (map PTensor sl) steps
               = fixed_loop slv f t_span (PTensor x') ?t' ?dt' (map PTensor (sl @ [x'])) (steps + 1)"
    using lt' by (subst fixed_loop.simps) (simp add: st py_ops Let_def)
  from Suc.hyps(1) [OF k le(2) le(1), of x' ?t' ?dt' "sl @ [x']"]
  obtain rest where
    r: "fixed_loop slv f t_span (PTensor x') ?t' ?dt' (map PTensor (sl @ [x'])) (steps + 1)
          = Inr (map PTensor ((sl @ [x']) @ rest))"
    and l: "length rest = length t_span - (steps + 1)"
    by blast
  have "length (x' # rest) = length t_span - steps" using l Suc.hyps(2) by simp
  with unf r show ?case
    by (intro exI [of _ "x' # rest"]) simp
qed

lemma fixed_odeint_conforming:
  assumes conf: "\<And>x t dt. \<exists>a x' c. step slv f x t dt PNone = Inr [a, PTensor x', c]"
      and len: "2 \<le> length t_span"
  shows "\<exists>rest. fixed_odeint f x t_span slv = Inr (t_span, x # rest) \<and>
                length (x # rest) = length t_span"
proof -
  from fixed_loop_conforming [OF conf, of 1 t_span x "t_span ! 0" "t_span ! 1 - t_span ! 0" "[x]"] len
  obtain rest where
    r: "fixed_loop slv f t_span (PTensor x) (t_span ! 0) (t_span ! 1 - t_span ! 0) [PTensor x] 1
          = Inr (map PTensor ([x] @ rest))"
    and l: "length rest = length t_span - 1"
    by auto
  have st: "torch_stack (PTensor x # map PTensor rest) = Inr (x # rest)"
    using torch_stack_tensors [of "x # rest"] by simp
  show ?thesis
    using r l len st
    by (intro exI [of _ rest]) (simp add: fixed_odeint_def Let_def bind_err_def)
qed

text \<open>
  C1 (the code departs from the claim): \<^verbatim>\<open>odeint\<close> on the grid \<^verbatim>\<open>[0, 1]\<close> with the Euler
  solver does not return \<^verbatim>\<open>(t_span, states)\<close> with \<^verbatim>\<open>states[0] = x\<close>; it raises TypeError.
\<close>

theorem odeint_euler_raises:
  "odeint init_step_one vf_id x_one [0, 1] Euler (1 / 1000) (1 / 1000) None False (False, None)
     = Some (Inl TypeError)"
  by (simp add: odeint_def fixed_odeint_def fixed_loop.simps Let_def Euler_def
        SolverTemplate_def Euler_step_def py_ops)

text \<open>
  C3 (the code departs from the claim): on a grid of two points the fixed-step loop with the
  Euler solver appends one entry, and the entry is \<^verbatim>\<open>None\<close>, not the Euler step
  \<^verbatim>\<open>x + dt * f(t, x)\<close>, which the solver returned in the third slot.
\<close>

theorem fixed_loop_euler_appends_none:
  "fixed_loop Euler f [t0, t1] (PTensor x) t0 (t1 - t0) [PTensor x] 1 = Inr [PTensor x, PNone] \<and>
   Euler_step f x t0 (t1 - t0) PNone
     = Inr [PNone, PNone, PTensor (t_add x (t_smul (t1 - t0) (f t0 x)))]"
  by (simp add: fixed_loop.simps Let_def Euler_def SolverTemplate_def Euler_step_def py_ops)

subsection \<open>The Dormand-Prince step\<close>

text \<open>
  C2 (the code departs from the claim): for the zero vector field every slope is zero, so the
  fifth-order and the embedded solution both equal \<^verbatim>\<open>x\<close> and their difference is zero; the
  step returns \<^verbatim>\<open>x_err = x\<close>, the state itself.
\<close>

theorem dopri5_error_holds_state:
  "DormandPrince45_step dopri5_std vf_zero x_one 0 1 PNone
     = Inr [PTensor (Tensor [1] [0]), PTensor (Tensor [1] [1]), PTensor (Tensor [1] [1])]"
  using dopri5_std_shape
  by (simp add: DormandPrince45_step_def Let_def lin_def py_ops tensor_ops vf_zero_def x_one_def)

subsection \<open>Reversed time\<close>

text \<open>
  C6 as stated fails: on the descending grid \<^verbatim>\<open>[1, 0]\<close> the returned times are the negated
  grid \<^verbatim>\<open>[-1, 0]\<close>, not the requested one.
\<close>

theorem odeint_reversed_times_counterexample:
  "odeint init_step_one vf_id x_one [1, 0] slot2_solver (1 / 1000) (1 / 1000) None False
       (False, None)
     = Some (Inr ([- 1, 0], [Tensor [1] [1], Tensor [1] [0]])) \<and>
   [- 1, 0] \<noteq> [1, 0 :: real]"
  by (simp add: odeint_def fixed_odeint_def fixed_loop.simps Let_def slot2_solver_def
        slot2_step_def SolverTemplate_def py_ops tensor_ops vf_id_def x_one_def)

text \<open>
  C6 amended: for a descending grid \<^verbatim>\<open>odeint\<close> runs the driver of the solver's stepping
  class on the vector field \<^verbatim>\<open>g(t, x) = -f(-t, x)\<close> and the negated grid, and the times a
  fixed-step run returns are the negated grid; nothing maps them back.
\<close>

theorem odeint_reversed_negated_grid:
  assumes "2 \<le> length t_span" and "t_span ! 1 < t_span ! 0"
  shows "odeint ini f x t_span slv atol rtol ip rae sn
           = (case stepping_class slv of
                Fixed \<Rightarrow> Some (fixed_odeint (\<lambda>t x. t_neg (f (- t) x)) x (map uminus t_span) slv)
              | Adaptive \<Rightarrow>
                  adaptive_odeint (\<lambda>t x. t_neg (f (- t) x))
                    (PTensor (t_neg (f (t_span ! 0) x))) x
                    (ini f (t_neg (f (t_span ! 0) x)) x (- (t_span ! 0)) (order slv) atol rtol)
                    (map uminus t_span) slv atol rtol ip rae sn) \<and>
         (\<forall>tms sts. fixed_odeint (\<lambda>t x. t_neg (f (- t) x)) x (map uminus t_span) slv
                       = Inr (tms, sts) \<longrightarrow> tms = map uminus t_span)"
proof -
  have "0 < length t_span" using assms(1) by (cases t_span) simp_all
  then have n0: "map uminus t_span ! 0 = - (t_span ! 0)" by (rule nth_map)
  have lt: "\<not> length t_span < 2" using assms(1) by simp
  show ?thesis
    using assms(2) lt n0
    by (auto simp add: odeint_def Let_def fixed_odeint_def bind_err_def
          split: sum.splits stepping.splits)
qed

theorem odeint_reversed_negated_grid_witness:
  "2 \<le> length [1, 0 :: real] \<and> [1, 0 :: real] ! 1 < [1, 0] ! 0 \<and>
   odeint init_step_one vf_id x_one [1, 0] slot2_solver (1 / 1000) (1 / 1000) None False
       (False, None)
     = Some (fixed_odeint (\<lambda>t x. t_neg (vf_id (- t) x)) x_one (map uminus [1, 0]) slot2_solver) \<and>
   fixed_odeint (\<lambda>t x. t_neg (vf_id (- t) x)) x_one (map uminus [1, 0]) slot2_solver
     = Inr ([- 1, 0], [Tensor [1] [1], Tensor [1] [0]]) \<and>
   [- 1, 0] = map uminus [1, 0 :: real]"
proof -
  have h1: "2 \<le> length [1, 0 :: real]" by simp
  have h2: "[1, 0 :: real] ! 1 < [1, 0] ! 0" by simp
  have cls: "stepping_class slot2_solver = Fixed"
    by (simp add: slot2_solver_def SolverTemplate_def)
  have run: "fixed_odeint (\<lambda>t x. t_neg (vf_id (- t) x)) x_one (map uminus [1, 0]) slot2_solver
       = Inr ([- 1, 0], [Tensor [1] [1], Tensor [1] [0]])"
    by (simp add: fixed_odeint_def fixed_loop.simps Let_def slot2_solver_def
          slot2_step_def SolverTemplate_def py_ops tensor_ops vf_id_def x_one_def)
  from odeint_reversed_negated_grid [OF h1 h2, of init_step_one vf_id x_one slot2_solver
      "1 / 1000" "1 / 1000" None False "(False, None)"]
  show ?thesis using cls run by simp
qed

subsection \<open>The adaptive driver: one pass of the loop\<close>

lemma hairer_norm_single: "hairer_norm (Tensor sh [v]) = \<bar>v\<bar>"
  by (simp add: hairer_norm_def)

lemma error_scaled_nth:
  assumes "i < length (data e)" and "i < length (data x)" and "i < length (data xn)"
  shows "data (error_scaled atol rtol e x xn) ! i
           = data e ! i / (atol + rtol * max \<bar>data x ! i\<bar> \<bar>data xn ! i\<bar>)"
  using assms by (simp add: error_scaled_def tensor_ops)

lemmas body_eval =
  adaptive_body_def trial_dt_def ckpt_clip_def clamp_dt_def restored_dt_def Let_def
  est_solver_def SolverTemplate_def est_step_def py_ops error_ratio_def error_scaled_def
  tensor_ops x_one_def vf_zero_def hairer_norm_single

lemma step_quarter:
  "step (c_solver cfg_quarter) (c_f cfg_quarter) (cur_x (s_init 1)) (cur_t (s_init 1))
       (trial_dt cfg_quarter (s_init 1)) (cur_k1 (s_init 1))
     = Inr [PTensor (Tensor [1] [0]), PTensor (Tensor [1] [1]), PTensor (Tensor [1] [1]), PList []]"
  by (simp add: cfg_quarter_def s_init_def body_eval)

lemma ratio_quarter:
  "error_ratio (c_seminorm cfg_quarter) (c_atol cfg_quarter) (c_rtol cfg_quarter)
       (cur_x (s_init 1)) (PTensor (Tensor [1] [1])) (PTensor (Tensor [1] [1])) = Inr 1"
  by (simp add: cfg_quarter_def s_init_def body_eval)

lemma body_quarter:
  "adaptive_body cfg_quarter (s_init 1) =
     Inr \<lparr> cur_t = 1 / 4, cur_x = Tensor [1] [1],
           cur_dt = adapt_step (3 / 4) 1 (9 / 10) (1 / 5) 10 1,
           cur_k1 = PTensor (Tensor [1] [0]), ckpt_counter = 1,
           ckpt_flag = False, dt_old = 1, eval_times = [0, 1 / 4],
           sol = [Tensor [1] [1], Tensor [1] [1]] \<rparr>"
  by (simp add: cfg_quarter_def s_init_def body_eval)

lemma step_half:
  "step (c_solver cfg_half) (c_f cfg_half) (cur_x (s_init 2)) (cur_t (s_init 2))
       (trial_dt cfg_half (s_init 2)) (cur_k1 (s_init 2))
     = Inr [PTensor (Tensor [1] [0]), PTensor (Tensor [1] [1]), PTensor (Tensor [1] [2]), PList []]"
  by (simp add: cfg_half_def cfg_quarter_def s_init_def body_eval)

lemma ratio_half:
  "error_ratio (c_seminorm cfg_half) (c_atol cfg_half) (c_rtol cfg_half)
       (cur_x (s_init 2)) (PTensor (Tensor [1] [1])) (PTensor (Tensor [1] [2])) = Inr 2"
  by (simp add: cfg_half_def cfg_quarter_def s_init_def body_eval)

lemma body_half:
  "adaptive_body cfg_half (s_init 2) =
     Inr \<lparr> cur_t = 0, cur_x = Tensor [1] [1],
           cur_dt = adapt_step (3 / 2) 2 (9 / 10) (1 / 5) 10 1,
           cur_k1 = PNone, ckpt_counter = 0,
           ckpt_flag = False, dt_old = 2, eval_times = [0],
           sol = [Tensor [1] [1]] \<rparr>"
  by (simp add: cfg_half_def cfg_quarter_def s_init_def body_eval)

lemma error_scaled_data:
  "data (error_scaled atol rtol e x xn)
     = map (\<lambda>(ev, a, b). ev / (atol + rtol * max \<bar>a\<bar> \<bar>b\<bar>))
           (zip (data e) (zip (data x) (data xn)))"
  by (simp add: error_scaled_def tensor_ops list_eq_iff_nth_eq)

lemma step_scaled_acc:
  "step (c_solver (cfg_scaled (3 / 4))) (c_f (cfg_scaled (3 / 4))) (cur_x (s_init (1 / 4)))
       (cur_t (s_init (1 / 4))) (trial_dt (cfg_scaled (3 / 4)) (s_init (1 / 4)))
       (cur_k1 (s_init (1 / 4)))
     = Inr [PTensor (Tensor [1] [0]), PTensor (Tensor [1] [1]), PTensor (Tensor [1] [1]), PList []]"
  by (simp add: cfg_scaled_def cfg_quarter_def s_init_def body_eval)

lemma ratio_scaled_acc:
  "error_ratio (c_seminorm (cfg_scaled (3 / 4))) (c_atol (cfg_scaled (3 / 4)))
       (c_rtol (cfg_scaled (3 / 4))) (cur_x (s_init (1 / 4))) (PTensor (Tensor [1] [1]))
       (PTensor (Tensor [1] [1])) = Inr (1 / 2)"
  by (simp add: cfg_scaled_def cfg_quarter_def s_init_def body_eval)

lemma body_scaled_acc:
  "adaptive_body (cfg_scaled (3 / 4)) (s_init (1 / 4)) =
     Inr \<lparr> cur_t = 1 / 4, cur_x = Tensor [1] [1],
           cur_dt = adapt_step (1 / 4) (1 / 2) (9 / 10) (1 / 5) 10 1,
           cur_k1 = PTensor (Tensor [1] [0]), ckpt_counter = 0,
           ckpt_flag = False, dt_old = 0, eval_times = [0],
           sol = [Tensor [1] [1]] \<rparr>"
  by (simp add: cfg_scaled_def cfg_quarter_def s_init_def body_eval)

lemma step_scaled_rej:
  "step (c_solver (cfg_scaled (3 / 4))) (c_f (cfg_scaled (3 / 4))) (cur_x (s_init 2))
       (cur_t (s_init 2)) (trial_dt (cfg_scaled (3 / 4)) (s_init 2)) (cur_k1 (s_init 2))
     = Inr [PTensor (Tensor [1] [0]), PTensor (Tensor [1] [1]), PTensor (Tensor [1] [3]), PList []]"
  by (simp add: cfg_scaled_def cfg_quarter_def s_init_def body_eval)

lemma ratio_scaled_rej:
  "error_ratio (c_seminorm (cfg_scaled (3 / 4))) (c_atol (cfg_scaled (3 / 4)))
       (c_rtol (cfg_scaled (3 / 4))) (cur_x (s_init 2)) (PTensor (Tensor [1] [1]))
       (PTensor (Tensor [1] [3])) = Inr (3 / 2)"
  by (simp add: cfg_scaled_def cfg_quarter_def s_init_def body_eval)

lemma body_scaled_rej:
  "adaptive_body (cfg_scaled (3 / 4)) (s_init 2) =
     Inr \<lparr> cur_t = 0, cur_x = Tensor [1] [1],
           cur_dt = adapt_step (5 / 4) (3 / 2) (9 / 10) (1 / 5) 10 1,
           cur_k1 = PNone, ckpt_counter = 0,
           ckpt_flag = False, dt_old = 2, eval_times = [0],
           sol = [Tensor [1] [1]] \<rparr>"
  by (simp add: cfg_scaled_def cfg_quarter_def s_init_def body_eval)

lemma step_scaled_hit:
  "step (c_solver (cfg_scaled (1 / 4))) (c_f (cfg_scaled (1 / 4))) (cur_x (s_init 1))
       (cur_t (s_init 1)) (trial_dt (cfg_scaled (1 / 4)) (s_init 1)) (cur_k1 (s_init 1))
     = Inr [PTensor (Tensor [1] [0]), PTensor (Tensor [1] [1]), PTensor (Tensor [1] [1]), PList []]"
  by (simp add: cfg_scaled_def cfg_quarter_def s_init_def body_eval)

lemma ratio_scaled_hit:
  "error_ratio (c_seminorm (cfg_scaled (1 / 4))) (c_atol (cfg_scaled (1 / 4)))
       (c_rtol (cfg_scaled (1 / 4))) (cur_x (s_init 1)) (PTensor (Tensor [1] [1]))
       (PTensor (Tensor [1] [1])) = Inr (1 / 2)"
  by (simp add: cfg_scaled_def cfg_quarter_def s_init_def body_eval)

lemma body_scaled_hit:
  "adaptive_body (cfg_scaled (1 / 4)) (s_init 1) =
     Inr \<lparr> cur_t = 1 / 4, cur_x = Tensor [1] [1],
           cur_dt = adapt_step (3 / 4) (1 / 2) (9 / 10) (1 / 5) 10 1,
           cur_k1 = PTensor (Tensor [1] [0]), ckpt_counter = 1,
           ckpt_flag = False, dt_old = 1, eval_times = [0, 1 / 4],
           sol = [Tensor [1] [1], Tensor [1] [1]] \<rparr>"
  by (simp add: cfg_scaled_def cfg_quarter_def s_init_def body_eval)

text \<open>
  C4 as stated fails: acceptance does not always update the accumulator. On
  \<^verbatim>\<open>t_span = [0, 3/4, 2]\<close> with first step size \<open>1/4\<close> the trial step has ratio \<open>1/2\<close>,
  time advances to \<open>1/4\<close>, and nothing is appended.
\<close>

theorem adaptive_accept_no_append_counterexample:
  "error_ratio (c_seminorm (cfg_scaled (3 / 4))) (c_atol (cfg_scaled (3 / 4)))
       (c_rtol (cfg_scaled (3 / 4))) (cur_x (s_init (1 / 4))) (PTensor (Tensor [1] [1]))
       (PTensor (Tensor [1] [1])) = Inr (1 / 2) \<and> (1 / 2 :: real) \<le> 1 \<and>
   (\<exists>s'. adaptive_body (cfg_scaled (3 / 4)) (s_init (1 / 4)) = Inr s' \<and>
         cur_t s' = 1 / 4 \<and> cur_t (s_init (1 / 4)) = 0 \<and>
         sol s' = sol (s_init (1 / 4)) \<and> eval_times s' = eval_times (s_init (1 / 4)))"
proof -
  have ini: "cur_t (s_init (1 / 4)) = 0" "sol (s_init (1 / 4)) = [Tensor [1] [1]]"
    "eval_times (s_init (1 / 4)) = [0]"
    by (simp_all add: s_init_def x_one_def)
  show ?thesis
    using ini ratio_scaled_acc body_scaled_acc by simp
qed

text \<open>
  C4 amended: in a pass of the adaptive loop that raises nothing, with \<open>r\<close> the error ratio of
  the trial step, the step is accepted (time advanced by the trial step size, state and first
  slope replaced) exactly when \<open>r \<le> 1\<close>, and otherwise time, state, slope, accumulator and
  checkpoint counter stay as they were; so every committed step has \<open>r \<le> 1\<close>. An accepted
  step is appended to the accumulator (without an interpolator) exactly when it ends on the
  next requested time or \<^verbatim>\<open>return_all_eval\<close> is set. Without a seminorm \<open>r\<close> is the root of
  the mean of the squares of \<^verbatim>\<open>x_err_i / (atol + rtol * max(|x_i|, |x_new_i|))\<close>.
\<close>

theorem adaptive_accept_iff:
  assumes stp: "step (c_solver cfg) (c_f cfg) (cur_x s) (cur_t s) (trial_dt cfg s) (cur_k1 s)
                  = Inr [f_new, PTensor x_new, x_err, stages]"
      and rat: "error_ratio (c_seminorm cfg) (c_atol cfg) (c_rtol cfg) (cur_x s)
                  (PTensor x_new) x_err = Inr r"
      and bod: "adaptive_body cfg s = Inr s'"
  shows "(r \<le> 1 \<longrightarrow>
            cur_t s' = cur_t s + trial_dt cfg s \<and> cur_x s' = x_new \<and> cur_k1 s' = f_new) \<and>
         (r \<le> 1 \<and> c_interp cfg = None \<longrightarrow>
            (let save = (cur_t s + trial_dt cfg s = c_t_eval cfg ! ckpt_counter s \<or> c_all_eval cfg)
             in sol s' = (if save then sol s @ [x_new] else sol s) \<and>
                eval_times s' = (if save then eval_times s @ [cur_t s + trial_dt cfg s]
                                 else eval_times s))) \<and>
         (\<not> r \<le> 1 \<longrightarrow>
            cur_t s' = cur_t s \<and> cur_x s' = cur_x s \<and> cur_k1 s' = cur_k1 s \<and>
            sol s' = sol s \<and> eval_times s' = eval_times s \<and>
            ckpt_counter s' = ckpt_counter s) \<and>
         (\<not> fst (c_seminorm cfg) \<longrightarrow>
            (\<exists>e. x_err = PTensor e \<and>
                 r = sqrt ((\<Sum>(ev, a, b) \<leftarrow> zip (data e) (zip (data (cur_x s)) (data x_new)).
                              (ev / (c_atol cfg + c_rtol cfg * max \<bar>a\<bar> \<bar>b\<bar>))\<^sup>2)
                           / real (length (zip (data e) (zip (data (cur_x s)) (data x_new)))))))"
proof -
  have commit: "(r \<le> 1 \<longrightarrow>
            cur_t s' = cur_t s + trial_dt cfg s \<and> cur_x s' = x_new \<and> cur_k1 s' = f_new) \<and>
         (r \<le> 1 \<and> c_interp cfg = None \<longrightarrow>
            (let save = (cur_t s + trial_dt cfg s = c_t_eval cfg ! ckpt_counter s \<or> c_all_eval cfg)
             in sol s' = (if save then sol s @ [x_new] else sol s) \<and>
                eval_times s' = (if save then eval_times s @ [cur_t s + trial_dt cfg s]
                                 else eval_times s))) \<and>
         (\<not> r \<le> 1 \<longrightarrow>
            cur_t s' = cur_t s \<and> cur_x s' = cur_x s \<and> cur_k1 s' = cur_k1 s \<and>
            sol s' = sol s \<and> eval_times s' = eval_times s \<and>
            ckpt_counter s' = ckpt_counter s)"
    using bod stp rat
    by (auto simp add: adaptive_body_def Let_def bind_err_def unpack4_def as_tensor_def
          split: sum.splits if_splits option.splits prod.splits)
  have norm: "\<not> fst (c_seminorm cfg) \<longrightarrow>
            (\<exists>e. x_err = PTensor e \<and>
                 r = sqrt ((\<Sum>(ev, a, b) \<leftarrow> zip (data e) (zip (data (cur_x s)) (data x_new)).
                              (ev / (c_atol cfg + c_rtol cfg * max \<bar>a\<bar> \<bar>b\<bar>))\<^sup>2)
                           / real (length (zip (data e) (zip (data (cur_x s)) (data x_new))))))"
    using rat
    by (cases x_err)
       (auto simp add: error_ratio_def bind_err_def as_tensor_def hairer_norm_def
          error_scaled_data split_def comp_def split: if_splits)
  from commit norm show ?thesis by blast
qed

theorem adaptive_accept_iff_witness:
  "adaptive_body (cfg_scaled (3 / 4)) (s_init (1 / 4)) =
     Inr \<lparr> cur_t = 1 / 4, cur_x = Tensor [1] [1],
           cur_dt = adapt_step (1 / 4) (1 / 2) (9 / 10) (1 / 5) 10 1,
           cur_k1 = PTensor (Tensor [1] [0]), ckpt_counter = 0,
           ckpt_flag = False, dt_old = 0, eval_times = [0],
           sol = [Tensor [1] [1]] \<rparr> \<and>
   (1 / 2 :: real) \<le> 1 \<and> c_interp (cfg_scaled (3 / 4)) = None \<and>
   \<not> fst (c_seminorm (cfg_scaled (3 / 4))) \<and>
   (1 / 2 :: real)
     = sqrt ((\<Sum>(ev, a, b) \<leftarrow> zip [1] (zip [1] [1 :: real]). (ev / (1 + 1 * max \<bar>a\<bar> \<bar>b\<bar>))\<^sup>2)
             / real (length (zip [1 :: real] (zip [1 :: real] [1 :: real])))) \<and>
   adaptive_body (cfg_scaled (3 / 4)) (s_init 2) =
     Inr \<lparr> cur_t = 0, cur_x = Tensor [1] [1],
           cur_dt = adapt_step (5 / 4) (3 / 2) (9 / 10) (1 / 5) 10 1,
           cur_k1 = PNone, ckpt_counter = 0,
           ckpt_flag = False, dt_old = 2, eval_times = [0],
           sol = [Tensor [1] [1]] \<rparr> \<and>
   \<not> (3 / 2 :: real) \<le> 1 \<and> cur_t (s_init 2) = 0 \<and> sol (s_init 2) = [Tensor [1] [1]] \<and>
   adaptive_body (cfg_scaled (1 / 4)) (s_init 1) =
     Inr \<lparr> cur_t = 1 / 4, cur_x = Tensor [1] [1],
           cur_dt = adapt_step (3 / 4) (1 / 2) (9 / 10) (1 / 5) 10 1,
           cur_k1 = PTensor (Tensor [1] [0]), ckpt_counter = 1,
           ckpt_flag = False, dt_old = 1, eval_times = [0, 1 / 4],
           sol = [Tensor [1] [1], Tensor [1] [1]] \<rparr> \<and>
   cur_t (s_init 1) + trial_dt (cfg_scaled (1 / 4)) (s_init 1)
     = c_t_eval (cfg_scaled (1 / 4)) ! ckpt_counter (s_init 1)"
proof -
  have facts: "c_interp (cfg_scaled (3 / 4)) = None" "\<not> fst (c_seminorm (cfg_scaled (3 / 4)))"
    "cur_t (s_init 2) = 0" "sol (s_init 2) = [Tensor [1] [1]]"
    "cur_t (s_init 1) + trial_dt (cfg_scaled (1 / 4)) (s_init 1)
       = c_t_eval (cfg_scaled (1 / 4)) ! ckpt_counter (s_init 1)"
    by (simp_all add: cfg_scaled_def cfg_quarter_def s_init_def x_one_def trial_dt_def
          ckpt_clip_def clamp_dt_def)
  show ?thesis
    using adaptive_accept_iff [OF step_scaled_acc ratio_scaled_acc body_scaled_acc]
      adaptive_accept_iff [OF step_scaled_rej ratio_scaled_rej body_scaled_rej]
      adaptive_accept_iff [OF step_scaled_hit ratio_scaled_hit body_scaled_hit]
      body_scaled_acc body_scaled_rej body_scaled_hit facts
    by simp
qed

subsection \<open>Step-size adaptation and the accumulator\<close>

lemma adapt_factor_pos: "0 < minf \<Longrightarrow> 0 < maxf \<Longrightarrow> 0 < adapt_factor r sf minf maxf ord"
  by (auto simp add: adapt_factor_def max_def min_def)

lemma step_eighth:
  "step (c_solver cfg_quarter) (c_f cfg_quarter) (cur_x (s_init (1 / 8))) (cur_t (s_init (1 / 8)))
       (trial_dt cfg_quarter (s_init (1 / 8))) (cur_k1 (s_init (1 / 8)))
     = Inr [PTensor (Tensor [1] [0]), PTensor (Tensor [1] [1]), PTensor (Tensor [1] [1 / 2]),
            PList []]"
  by (simp add: cfg_quarter_def s_init_def body_eval)

lemma ratio_eighth:
  "error_ratio (c_seminorm cfg_quarter) (c_atol cfg_quarter) (c_rtol cfg_quarter)
       (cur_x (s_init (1 / 8))) (PTensor (Tensor [1] [1])) (PTensor (Tensor [1] [1 / 2]))
     = Inr (1 / 2)"
  by (simp add: cfg_quarter_def s_init_def body_eval)

lemma body_eighth:
  "adaptive_body cfg_quarter (s_init (1 / 8)) =
     Inr \<lparr> cur_t = 1 / 8, cur_x = Tensor [1] [1],
           cur_dt = adapt_step (1 / 8) (1 / 2) (9 / 10) (1 / 5) 10 1,
           cur_k1 = PTensor (Tensor [1] [0]), ckpt_counter = 0,
           ckpt_flag = False, dt_old = 0, eval_times = [0],
           sol = [Tensor [1] [1]] \<rparr>"
  by (simp add: cfg_quarter_def s_init_def body_eval)

text \<open>
  C5 as stated fails twice. On \<^verbatim>\<open>t_span = [0, 1/2, 2]\<close> with first step size 2 the trial
  step is cut to 1/2 and rejected with ratio 2; the retry uses \<^verbatim>\<open>(dt_old - dt) * factor\<close>,
  that is \<^verbatim>\<open>3/2 * factor\<close>, not \<^verbatim>\<open>1/2 * factor\<close>. On \<^verbatim>\<open>t_span = [0, 1/4, 2]\<close> with first
  step size 1/8 the step is accepted, time advances to 1/8, and nothing is appended to the
  accumulator.
\<close>

theorem adaptive_retry_append_counterexample:
  "(\<exists>s'. adaptive_body cfg_half (s_init 2) = Inr s' \<and>
         trial_dt cfg_half (s_init 2) = 1 / 2 \<and>
         cur_dt s' = 3 / 2 * adapt_factor 2 (9 / 10) (1 / 5) 10 1 \<and>
         cur_dt s' \<noteq> 1 / 2 * adapt_factor 2 (9 / 10) (1 / 5) 10 1) \<and>
   (\<exists>s'. adaptive_body cfg_quarter (s_init (1 / 8)) = Inr s' \<and>
         cur_t s' = 1 / 8 \<and> cur_t (s_init (1 / 8)) = 0 \<and>
         sol s' = sol (s_init (1 / 8)) \<and> eval_times s' = eval_times (s_init (1 / 8)))"
proof -
  have pos: "0 < adapt_factor 2 (9 / 10) (1 / 5) 10 1"
    by (rule adapt_factor_pos) simp_all
  have td: "trial_dt cfg_half (s_init 2) = 1 / 2"
    by (simp add: cfg_half_def cfg_quarter_def s_init_def body_eval)
  have ini: "cur_t (s_init (1 / 8)) = 0" "sol (s_init (1 / 8)) = [Tensor [1] [1]]"
    "eval_times (s_init (1 / 8)) = [0]"
    by (simp_all add: s_init_def x_one_def)
  show ?thesis
    using pos td ini body_half body_eighth by (simp add: adapt_step_def)
qed

text \<open>
  C5 amended: in a pass of the adaptive loop that raises nothing, with \<open>r\<close> the error ratio
  of the trial step, the next step size is \<open>dt' * factor\<close>, where \<open>factor\<close> is
  \<^verbatim>\<open>safety * r^(-1/order)\<close> clamped to \<^verbatim>\<open>[min_factor, max_factor]\<close> and \<open>dt'\<close> is the trial
  step size, or, when the trial step had been cut to land on a requested time, the rest
  \<^verbatim>\<open>dt_old - dt\<close> of the step before the cut. On rejection (\<open>1 < r\<close>) time, state and
  accumulator are unchanged. On acceptance time and state advance, and without an
  interpolator the accumulator is appended exactly when the step ends on the next requested
  time or \<^verbatim>\<open>return_all_eval\<close> is set. A solver built by \<^verbatim>\<open>SolverTemplate\<close> has
  \<^verbatim>\<open>safety = 0.9\<close>, \<^verbatim>\<open>min_factor = 0.2\<close> and \<^verbatim>\<open>max_factor = 10\<close>.
\<close>

theorem adaptive_step_outcome:
  assumes stp: "step (c_solver cfg) (c_f cfg) (cur_x s) (cur_t s) (trial_dt cfg s) (cur_k1 s)
                  = Inr [f_new, PTensor x_new, x_err, stages]"
      and rat: "error_ratio (c_seminorm cfg) (c_atol cfg) (c_rtol cfg) (cur_x s)
                  (PTensor x_new) x_err = Inr r"
      and bod: "adaptive_body cfg s = Inr s'"
  shows "cur_dt s' = restored_dt cfg s *
            adapt_factor r (safety (c_solver cfg)) (min_factor (c_solver cfg))
              (max_factor (c_solver cfg)) (order (c_solver cfg)) \<and>
         (1 < r \<longrightarrow>
            adapt_factor r (safety (c_solver cfg)) (min_factor (c_solver cfg))
                (max_factor (c_solver cfg)) (order (c_solver cfg))
              = min (max_factor (c_solver cfg))
                  (max (min_factor (c_solver cfg))
                     (safety (c_solver cfg) * r powr (- 1 / real (order (c_solver cfg))))) \<and>
            cur_t s' = cur_t s \<and> cur_x s' = cur_x s \<and>
            sol s' = sol s \<and> eval_times s' = eval_times s) \<and>
         (r \<le> 1 \<longrightarrow> cur_t s' = cur_t s + trial_dt cfg s \<and> cur_x s' = x_new) \<and>
         (r \<le> 1 \<and> c_interp cfg = None \<longrightarrow>
            (let save = (cur_t s + trial_dt cfg s = c_t_eval cfg ! ckpt_counter s \<or> c_all_eval cfg)
             in sol s' = (if save then sol s @ [x_new] else sol s) \<and>
                eval_times s' = (if save then eval_times s @ [cur_t s + trial_dt cfg s]
                                 else eval_times s))) \<and>
         (\<not> ckpt_clip cfg s \<and> \<not> ckpt_flag s \<longrightarrow> restored_dt cfg s = trial_dt cfg s) \<and>
         (ckpt_clip cfg s \<longrightarrow> restored_dt cfg s = clamp_dt cfg s - trial_dt cfg s) \<and>
         safety (SolverTemplate ord cls stp) = 9 / 10 \<and>
         min_factor (SolverTemplate ord cls stp) = 2 / 10 \<and>
         max_factor (SolverTemplate ord cls stp) = 10"
  using bod stp rat
  by (auto simp add: adaptive_body_def Let_def bind_err_def unpack4_def as_tensor_def
        adapt_step_def adapt_factor_def restored_dt_def SolverTemplate_def
        split: sum.splits if_splits option.splits prod.splits)

theorem adaptive_step_outcome_witness:
  "adaptive_body cfg_half (s_init 2) =
     Inr \<lparr> cur_t = 0, cur_x = Tensor [1] [1],
           cur_dt = adapt_step (3 / 2) 2 (9 / 10) (1 / 5) 10 1,
           cur_k1 = PNone, ckpt_counter = 0,
           ckpt_flag = False, dt_old = 2, eval_times = [0],
           sol = [Tensor [1] [1]] \<rparr> \<and>
   (1 :: real) < 2 \<and> ckpt_clip cfg_half (s_init 2) \<and>
   adapt_step (3 / 2) 2 (9 / 10) (1 / 5) 10 1
     = restored_dt cfg_half (s_init 2) *
         adapt_factor 2 (safety (c_solver cfg_half)) (min_factor (c_solver cfg_half))
           (max_factor (c_solver cfg_half)) (order (c_solver cfg_half)) \<and>
   restored_dt cfg_half (s_init 2) = clamp_dt cfg_half (s_init 2) - trial_dt cfg_half (s_init 2) \<and>
   adaptive_body cfg_quarter (s_init (1 / 8)) =
     Inr \<lparr> cur_t = 1 / 8, cur_x = Tensor [1] [1],
           cur_dt = adapt_step (1 / 8) (1 / 2) (9 / 10) (1 / 5) 10 1,
           cur_k1 = PTensor (Tensor [1] [0]), ckpt_counter = 0,
           ckpt_flag = False, dt_old = 0, eval_times = [0],
           sol = [Tensor [1] [1]] \<rparr> \<and>
   (1 / 2 :: real) \<le> 1 \<and> c_interp cfg_quarter = None \<and>
   \<not> ckpt_clip cfg_quarter (s_init (1 / 8)) \<and> \<not> ckpt_flag (s_init (1 / 8)) \<and>
   restored_dt cfg_quarter (s_init (1 / 8)) = trial_dt cfg_quarter (s_init (1 / 8))"
proof -
  have clip: "ckpt_clip cfg_half (s_init 2)"
    by (simp add: cfg_half_def cfg_quarter_def s_init_def ckpt_clip_def clamp_dt_def)
  have noclip: "\<not> ckpt_clip cfg_quarter (s_init (1 / 8))" "\<not> ckpt_flag (s_init (1 / 8))"
    "c_interp cfg_quarter = None"
    by (simp_all add: cfg_quarter_def s_init_def ckpt_clip_def clamp_dt_def)
  show ?thesis
    using adaptive_step_outcome [OF step_half ratio_half body_half]
      adaptive_step_outcome [OF step_eighth ratio_eighth body_eighth]
      body_half body_eighth clip noclip
    by simp
qed

subsection \<open>The seminorm\<close>

lemma hairer_norm_pair: "hairer_norm (Tensor sh [v, w]) = sqrt ((v\<^sup>2 + w\<^sup>2) / 2)"
  by (simp add: hairer_norm_def)

text \<open>
  C7 as stated fails for a batched state. With \<^verbatim>\<open>seminorm = (True, 1)\<close> and states of shape
  \<^verbatim>\<open>[2, 2]\<close>, two error estimates that agree on the leading component of the state
  dimension of every batch row, and differ only in the second component of the first row,
  give the ratios 0 (accepted) and \<open>sqrt (9/2) > 1\<close> (rejected): the cut \<^verbatim>\<open>[:1]\<close> keeps the
  whole first batch row.
\<close>

theorem seminorm_last_axis_counterexample:
  "error_ratio (True, Some 1) 1 0 z22 (PTensor z22) (PTensor z22) = Inr 0 \<and>
   error_ratio (True, Some 1) 1 0 z22 (PTensor z22) (PTensor e22) = Inr (sqrt (9 / 2)) \<and>
   \<not> sqrt (9 / 2) \<le> 1 \<and> last_lead 1 e22 = last_lead 1 z22"
  by (simp add: error_ratio_def slice0_def py_ops error_scaled_def tensor_ops z22_def e22_def
        hairer_norm_pair last_lead_def Let_def upt_rec)

lemma hairer_norm_pair_eq: "hairer_norm (Tensor sh [v, v]) = \<bar>v\<bar>"
  by (simp add: hairer_norm_def)

lemma take_upt_min: "take d [0 ..< n] = [0 ..< min d n]"
  by (cases "d \<le> n") (simp_all add: min_def)

lemma unstack_slice0:
  assumes "slice0 (Some d) a = Inr b"
  shows "unstack b = take d (unstack a) \<and>
         (\<exists>n rest. shape a = n # rest \<and>
            b = Tensor (min d n # rest) (take (min d n * prod_list rest) (data a)))"
proof -
  from assms obtain n rest where sh: "shape a = n # rest"
    and b: "b = Tensor (min d n # rest) (take (min d n * prod_list rest) (data a))"
    by (auto simp add: slice0_def split: list.splits)
  have row: "take (prod_list rest) (drop (i * prod_list rest) (take (min d n * prod_list rest) (data a)))
        = take (prod_list rest) (drop (i * prod_list rest) (data a))" if "i < min d n" for i
  proof -
    from that have "0 < min d n - i" by arith
    then have "prod_list rest \<le> (min d n - i) * prod_list rest" by (cases "min d n - i") simp_all
    then have "min (prod_list rest) (min d n * prod_list rest - i * prod_list rest) = prod_list rest"
      by (simp add: diff_mult_distrib)
    then show ?thesis by (simp add: drop_take)
  qed
  have "unstack b = map (\<lambda>i. Tensor rest (take (prod_list rest) (drop (i * prod_list rest) (data a)))) [0 ..< min d n]"
    using row by (simp add: b unstack_def)
  moreover have "take d (unstack a) = map (\<lambda>i. Tensor rest (take (prod_list rest) (drop (i * prod_list rest) (data a)))) [0 ..< min d n]"
    by (simp add: unstack_def sh take_map take_upt_min)
  ultimately show ?thesis using sh b by simp
qed

lemmas semi_eval =
  trial_dt_def ckpt_clip_def clamp_dt_def restored_dt_def Let_def
  echo_solver_def SolverTemplate_def echo_step_def py_ops error_ratio_def error_scaled_def
  slice0_def tensor_ops xb22_def vf_zero_def hairer_norm_pair_eq
  h_clip_def h_clamp_dt_def h_trial_dt_def check_all_def triggered_def

lemma step_semi:
  "step (c_solver cfg_semi) (c_f cfg_semi) (cur_x s_semi) (cur_t s_semi) (trial_dt cfg_semi s_semi)
       (cur_k1 s_semi)
     = Inr [PTensor (Tensor [2, 2] [0, 0, 0, 0]), PTensor (Tensor [2, 2] [1, 1, 7, 9]),
            PTensor (Tensor [2, 2] [1 / 4, 1 / 4, 7 / 4, 9 / 4]), PList []]"
  by (simp add: cfg_semi_def s_semi_def semi_eval)

lemma body_semi:
  "adaptive_body cfg_semi s_semi =
     Inr \<lparr> cur_t = 1 / 4, cur_x = Tensor [2, 2] [1, 1, 7, 9],
           cur_dt = adapt_step (3 / 4) (1 / 8) (9 / 10) (1 / 5) 10 1,
           cur_k1 = PTensor (Tensor [2, 2] [0, 0, 0, 0]),
           ckpt_counter = 1, ckpt_flag = False, dt_old = 1,
           eval_times = [0, 1 / 4],
           sol = [Tensor [2, 2] [1, 1, 7, 9], Tensor [2, 2] [1, 1, 7, 9]] \<rparr>"
  by (simp add: adaptive_body_def cfg_semi_def s_semi_def semi_eval)

lemma hstep_semi:
  "step (h_solver hcfg_semi) (h_f hcfg_semi) (cur_x hs_semi) (cur_t hs_semi)
       (h_trial_dt hcfg_semi hs_semi) (cur_k1 hs_semi)
     = Inr [PTensor (Tensor [2, 2] [0, 0, 0, 0]), PTensor (Tensor [2, 2] [1, 1, 7, 9]),
            PTensor (Tensor [2, 2] [1 / 4, 1 / 4, 7 / 4, 9 / 4]), PList []]"
  by (simp add: hcfg_semi_def hs_semi_def semi_eval)

lemma hbody_semi:
  "hybrid_body hcfg_semi hs_semi =
     Inr \<lparr> cur_t = 1 / 4, cur_x = Tensor [2, 2] [1, 1, 7, 9],
           cur_dt = adapt_step (3 / 4) (1 / 8) (9 / 10) (1 / 5) 10 1,
           cur_k1 = PTensor (Tensor [2, 2] [0, 0, 0, 0]),
           ckpt_counter = 1, ckpt_flag = False, dt_old = 1,
           eval_times = [0, 1 / 4],
           sol = [Tensor [2, 2] [1, 1, 7, 9], Tensor [2, 2] [1, 1, 7, 9]], jnum = 0 \<rparr>"
  by (simp add: hybrid_body_def hcfg_semi_def hs_semi_def semi_eval)

text \<open>
  C7 amended: with \<^verbatim>\<open>seminorm = (True, d)\<close>, in a pass of the adaptive loop and in a pass of
  the hybrid loop without an event, acceptance and the next step size are computed from the
  ratio of \<^verbatim>\<open>x_err[:d]\<close>, \<^verbatim>\<open>x[:d]\<close> and \<^verbatim>\<open>x_new[:d]\<close> alone, and each of these cuts
  keeps the first \<open>d\<close> slices along the first axis of the state, whole: for a batched
  state the first \<open>d\<close> batch rows with all of their components.
\<close>

theorem seminorm_first_axis:
  assumes sn: "c_seminorm cfg = (True, Some d)"
      and stp: "step (c_solver cfg) (c_f cfg) (cur_x s) (cur_t s) (trial_dt cfg s) (cur_k1 s)
                  = Inr [f_new, PTensor x_new, PTensor x_err, stages]"
      and bod: "adaptive_body cfg s = Inr s'"
      and hsn: "h_seminorm hcfg = (True, Some d)"
      and hstp: "step (h_solver hcfg) (h_f hcfg) (cur_x hs) (cur_t hs) (h_trial_dt hcfg hs)
                   (cur_k1 hs)
                  = Inr [hf_new, PTensor hx_new, PTensor hx_err, hw]"
      and hnoev: "triggered (check_all (h_callbacks hcfg) (cur_t hs + h_trial_dt hcfg hs) hx_new)
                    (replicate (length (h_callbacks hcfg)) False) = 0"
      and hbod: "hybrid_body hcfg hs = Inr hs'"
  shows "(\<exists>es xs ns.
            slice0 (Some d) x_err = Inr es \<and> unstack es = take d (unstack x_err) \<and>
            slice0 (Some d) (cur_x s) = Inr xs \<and> unstack xs = take d (unstack (cur_x s)) \<and>
            slice0 (Some d) x_new = Inr ns \<and> unstack ns = take d (unstack x_new) \<and>
            (hairer_norm (error_scaled (c_atol cfg) (c_rtol cfg) es xs ns) \<le> 1
               \<longrightarrow> cur_x s' = x_new \<and> cur_t s' = cur_t s + trial_dt cfg s) \<and>
            (\<not> hairer_norm (error_scaled (c_atol cfg) (c_rtol cfg) es xs ns) \<le> 1
               \<longrightarrow> cur_x s' = cur_x s \<and> cur_t s' = cur_t s) \<and>
            cur_dt s' = adapt_step (restored_dt cfg s)
                          (hairer_norm (error_scaled (c_atol cfg) (c_rtol cfg) es xs ns))
                          (safety (c_solver cfg)) (min_factor (c_solver cfg))
                          (max_factor (c_solver cfg)) (order (c_solver cfg))) \<and>
         (\<exists>es xs ns.
            slice0 (Some d) hx_err = Inr es \<and> unstack es = take d (unstack hx_err) \<and>
            slice0 (Some d) (cur_x hs) = Inr xs \<and> unstack xs = take d (unstack (cur_x hs)) \<and>
            slice0 (Some d) hx_new = Inr ns \<and> unstack ns = take d (unstack hx_new) \<and>
            (hairer_norm (error_scaled (h_atol hcfg) (h_rtol hcfg) es xs ns) \<le> 1
               \<longrightarrow> cur_x hs' = hx_new \<and> cur_t hs' = cur_t hs + h_trial_dt hcfg hs) \<and>
            (\<not> hairer_norm (error_scaled (h_atol hcfg) (h_rtol hcfg) es xs ns) \<le> 1
               \<longrightarrow> cur_x hs' = cur_x hs \<and> cur_t hs' = cur_t hs) \<and>
            cur_dt hs' = adapt_step
                          (if h_clip hcfg hs then h_clamp_dt hcfg hs - h_trial_dt hcfg hs
                           else if ckpt_flag hs then dt_old hs - h_trial_dt hcfg hs
                           else h_trial_dt hcfg hs)
                          (hairer_norm (error_scaled (h_atol hcfg) (h_rtol hcfg) es xs ns))
                          (safety (h_solver hcfg)) (min_factor (h_solver hcfg))
                          (max_factor (h_solver hcfg)) (order (h_solver hcfg)))"
proof -
  from bod stp sn obtain es xs ns where
    a1: "slice0 (Some d) x_err = Inr es" and a2: "slice0 (Some d) (cur_x s) = Inr xs"
    and a3: "slice0 (Some d) x_new = Inr ns"
    by (auto simp add: adaptive_body_def Let_def bind_err_def unpack4_def as_tensor_def
          error_ratio_def split: sum.splits)
  have A: "(hairer_norm (error_scaled (c_atol cfg) (c_rtol cfg) es xs ns) \<le> 1
               \<longrightarrow> cur_x s' = x_new \<and> cur_t s' = cur_t s + trial_dt cfg s) \<and>
            (\<not> hairer_norm (error_scaled (c_atol cfg) (c_rtol cfg) es xs ns) \<le> 1
               \<longrightarrow> cur_x s' = cur_x s \<and> cur_t s' = cur_t s) \<and>
            cur_dt s' = adapt_step (restored_dt cfg s)
                          (hairer_norm (error_scaled (c_atol cfg) (c_rtol cfg) es xs ns))
                          (safety (c_solver cfg)) (min_factor (c_solver cfg))
                          (max_factor (c_solver cfg)) (order (c_solver cfg))"
    using bod stp sn a1 a2 a3
    by (auto simp add: adaptive_body_def Let_def bind_err_def unpack4_def as_tensor_def
          error_ratio_def split: sum.splits if_splits option.splits prod.splits)
  from hbod hstp hsn hnoev obtain hes hxs hns where
    b1: "slice0 (Some d) hx_err = Inr hes" and b2: "slice0 (Some d) (cur_x hs) = Inr hxs"
    and b3: "slice0 (Some d) hx_new = Inr hns"
    by (cases "h_callbacks hcfg = []")
       (auto simp add: hybrid_body_def Let_def bind_err_def unpack4_def as_tensor_def
          error_ratio_def check_all_def triggered_def split: sum.splits if_splits)
  have B: "(hairer_norm (error_scaled (h_atol hcfg) (h_rtol hcfg) hes hxs hns) \<le> 1
               \<longrightarrow> cur_x hs' = hx_new \<and> cur_t hs' = cur_t hs + h_trial_dt hcfg hs) \<and>
            (\<not> hairer_norm (error_scaled (h_atol hcfg) (h_rtol hcfg) hes hxs hns) \<le> 1
               \<longrightarrow> cur_x hs' = cur_x hs \<and> cur_t hs' = cur_t hs) \<and>
            cur_dt hs' = adapt_step
                          (if h_clip hcfg hs then h_clamp_dt hcfg hs - h_trial_dt hcfg hs
                           else if ckpt_flag hs then dt_old hs - h_trial_dt hcfg hs
                           else h_trial_dt hcfg hs)
                          (hairer_norm (error_scaled (h_atol hcfg) (h_rtol hcfg) hes hxs hns))
                          (safety (h_solver hcfg)) (min_factor (h_solver hcfg))
                          (max_factor (h_solver hcfg)) (order (h_solver hcfg))"
    using hbod hstp hsn hnoev b1 b2 b3
    by (cases "h_callbacks hcfg = []")
       (auto simp add: hybrid_body_def Let_def bind_err_def unpack4_def as_tensor_def
          error_ratio_def check_all_def triggered_def
          split: sum.splits if_splits prod.splits)
  from unstack_slice0 [OF a1] unstack_slice0 [OF a2] unstack_slice0 [OF a3]
    unstack_slice0 [OF b1] unstack_slice0 [OF b2] unstack_slice0 [OF b3] a1 a2 a3 b1 b2 b3 A B
  show ?thesis by blast
qed

theorem seminorm_first_axis_witness:
  "c_seminorm cfg_semi = (True, Some 1) \<and> h_seminorm hcfg_semi = (True, Some 1) \<and>
   triggered (check_all (h_callbacks hcfg_semi) (cur_t hs_semi + h_trial_dt hcfg_semi hs_semi)
                (Tensor [2, 2] [1, 1, 7, 9]))
     (replicate (length (h_callbacks hcfg_semi)) False) = 0 \<and>
   slice0 (Some 1) xb22 = Inr (Tensor [1, 2] [1, 1]) \<and>
   unstack (Tensor [1, 2] [1, 1]) = take 1 (unstack xb22) \<and>
   slice0 (Some 1) (Tensor [2, 2] [1 / 4, 1 / 4, 7 / 4, 9 / 4]) = Inr (Tensor [1, 2] [1 / 4, 1 / 4]) \<and>
   hairer_norm (error_scaled 1 1 (Tensor [1, 2] [1 / 4, 1 / 4]) (Tensor [1, 2] [1, 1])
                  (Tensor [1, 2] [1, 1])) = 1 / 8 \<and>
   adaptive_body cfg_semi s_semi =
     Inr \<lparr> cur_t = 1 / 4, cur_x = Tensor [2, 2] [1, 1, 7, 9],
           cur_dt = adapt_step (3 / 4) (1 / 8) (9 / 10) (1 / 5) 10 1,
           cur_k1 = PTensor (Tensor [2, 2] [0, 0, 0, 0]),
           ckpt_counter = 1, ckpt_flag = False, dt_old = 1,
           eval_times = [0, 1 / 4],
           sol = [Tensor [2, 2] [1, 1, 7, 9], Tensor [2, 2] [1, 1, 7, 9]] \<rparr> \<and>
   hybrid_body hcfg_semi hs_semi =
     Inr \<lparr> cur_t = 1 / 4, cur_x = Tensor [2, 2] [1, 1, 7, 9],
           cur_dt = adapt_step (3 / 4) (1 / 8) (9 / 10) (1 / 5) 10 1,
           cur_k1 = PTensor (Tensor [2, 2] [0, 0, 0, 0]),
           ckpt_counter = 1, ckpt_flag = False, dt_old = 1,
           eval_times = [0, 1 / 4],
           sol = [Tensor [2, 2] [1, 1, 7, 9], Tensor [2, 2] [1, 1, 7, 9]], jnum = 0 \<rparr>"
proof -
  have sn: "c_seminorm cfg_semi = (True, Some 1)" by (simp add: cfg_semi_def)
  have hsn: "h_seminorm hcfg_semi = (True, Some 1)" by (simp add: hcfg_semi_def)
  have noev: "triggered (check_all (h_callbacks hcfg_semi)
                  (cur_t hs_semi + h_trial_dt hcfg_semi hs_semi) (Tensor [2, 2] [1, 1, 7, 9]))
                (replicate (length (h_callbacks hcfg_semi)) False) = 0"
    by (simp add: hcfg_semi_def check_all_def triggered_def)
  have cut: "slice0 (Some 1) xb22 = Inr (Tensor [1, 2] [1, 1])"
    "unstack (Tensor [1, 2] [1, 1]) = take 1 (unstack xb22)"
    "slice0 (Some 1) (Tensor [2, 2] [1 / 4, 1 / 4, 7 / 4, 9 / 4])
       = Inr (Tensor [1, 2] [1 / 4, 1 / 4])"
    "hairer_norm (error_scaled 1 1 (Tensor [1, 2] [1 / 4, 1 / 4]) (Tensor [1, 2] [1, 1])
                   (Tensor [1, 2] [1, 1])) = 1 / 8"
    by (simp_all add: slice0_def xb22_def unstack_def upt_rec error_scaled_def tensor_ops
          hairer_norm_pair_eq)
  from seminorm_first_axis [OF sn step_semi body_semi hsn hstep_semi noev hbody_semi]
    sn hsn noev cut body_semi hbody_semi
  show ?thesis by simp
qed

subsection \<open>Event bisection in the hybrid driver\<close>

text \<open>
  The bisection stops within 100 iterations, and when it stops short of 100 the inner step
  size is at most \<^verbatim>\<open>event_tol\<close>.
\<close>

lemma bisect_bound:
  "bisect cfg dt t_in dt_in x k nes n = Inr (t', dt', x', k', nes', n') \<Longrightarrow> n \<le> 100 \<Longrightarrow>
     n' \<le> 100 \<and> \<not> (n' < 100 \<and> h_event_tol cfg < dt')"
proof (induction "100 - n" arbitrary: n t_in dt_in x k nes)
  case 0
  then show ?case by (simp add: bisect.simps)
next
  case (Suc m)
  then have lt: "n < 100" by simp
  have R: "\<And>t_in dt_in x k nes.
      bisect cfg dt t_in dt_in x k nes (Suc n) = Inr (t', dt', x', k', nes', n') \<Longrightarrow>
      n' \<le> 100 \<and> \<not> (n' < 100 \<and> h_event_tol cfg < dt')"
    using Suc.hyps(1) [of "Suc n"] Suc.hyps(2) lt by simp
  show ?case
  proof (cases "h_event_tol cfg < dt_in")
    case False
    with Suc.prems show ?thesis by (simp add: bisect.simps)
  next
    case True
    from Suc.prems(1) show ?thesis
      apply (subst (asm) bisect.simps)
      apply (simp add: lt True Let_def bind_err_def split: sum.splits prod.splits if_splits)
       apply (auto dest: R)
      done
  qed
qed

lemma hcfg_event_sel:
  "h_callbacks hcfg_event = [cb_at3]" "h_solver hcfg_event = est_solver"
  "h_f hcfg_event = vf_zero" "h_T hcfg_event = 10" "h_t_eval hcfg_event = [10]"
  "h_event_tol hcfg_event = 1 / 10000" "h_atol hcfg_event = 1" "h_rtol hcfg_event = 0"
  "h_seminorm hcfg_event = (False, None)"
  by (simp_all add: hcfg_event_def)

lemmas hyb_eval =
  hcfg_event_sel cb_at3_def check_all_def triggered_def est_solver_def SolverTemplate_def
  est_step_def py_ops Let_def tensor_ops vf_zero_def x_one_def

text \<open>
  Once the inner start point has passed \<open>3/2\<close> every trial of the bisection ends after
  \<open>t = 3\<close>, no flag rises, the start point advances, and the loop runs to its 100th
  iteration with no flag set.
\<close>

lemma bisect_regime:
  "niters < 100 \<Longrightarrow> 3 / 2 < t_in \<Longrightarrow>
     \<exists>t' x' k'. bisect hcfg_event 3 t_in 3 x k nes niters = Inr (t', 3, x', k', [False], 100)"
proof (induction "99 - niters" arbitrary: niters t_in x k nes)
  case 0
  then have n: "niters = 99" by simp
  show ?case
    using 0(3) unfolding n
    apply (subst bisect.simps)
    apply (simp add: hyb_eval)
    apply (subst bisect.simps)
    apply simp
    done
next
  case (Suc m)
  then have lt: "niters + 1 < 100" and m: "m = 99 - (niters + 1)" by simp_all
  have "3 / 2 < t_in + 3 / 2" using Suc.prems by simp
  from Suc.hyps(1) [OF m lt this]
  show ?case
    using Suc.prems
    apply (subst bisect.simps)
    apply (simp add: hyb_eval)
    done
qed

lemma bisect_event:
  "\<exists>t' x' k'. bisect hcfg_event 3 0 3 x k [True] 0 = Inr (t', 3, x', k', [False], 100)"
  apply (subst bisect.simps)
  apply (simp add: hyb_eval)
  apply (subst bisect.simps)
  apply (simp add: hyb_eval)
  apply (subst bisect.simps)
  apply (simp add: hyb_eval)
  apply (rule bisect_regime)
   apply simp_all
  done

lemma hybrid_body_exhaust: "hybrid_body hcfg_event (hs_init 3) = Inl ValueError"
proof -
  obtain t' x' k' where
    b: "bisect hcfg_event 3 0 3 (Tensor [Suc 0] [1]) (PTensor (Tensor [Suc 0] [0])) [True] 0
          = Inr (t', 3, x', k', [False], 100)"
    using bisect_event by blast
  show ?thesis
    by (simp add: hybrid_body_def h_clip_def h_clamp_dt_def h_trial_dt_def hs_init_def
          hyb_eval b first_true_def)
qed

text \<open>
  C9 (the code departs from the claim): the bisection always stops, but exhausting its 100
  iterations can raise. Here the trial step from 0 to 3 raises the flag, the bisection
  steps past \<open>t = 3\<close>, its last 97 trials raise no flag, and after the 100th the driver
  takes \<^verbatim>\<open>min\<close> of an empty list of indices: ValueError, propagated to the caller.
\<close>

theorem hybrid_exhaust_raises:
  "odeint_hybrid init_step_three vf_zero x_one [0, 10] 1 est_solver [cb_at3] 1 0 (1 / 10000)
       True (False, None) = Some (Inl ValueError)"
proof -
  have loop: "hybrid_loop hcfg_event (hs_init 3) = Some (Inl ValueError)"
    by (subst hybrid_loop.simps)
       (simp add: hybrid_body_exhaust hcfg_event_sel, simp add: hs_init_def hcfg_event_def)
  show ?thesis
    using loop
    by (simp add: odeint_hybrid_def Let_def hcfg_event_def hs_init_def init_step_three_def
          check_all_def triggered_def cb_at3_def vf_zero_def x_one_def tensor_ops)
qed

subsection \<open>The checkpoint counter of the hybrid driver\<close>

lemma af_reject: "adapt_factor (9 / 5) (9 / 10) (1 / 5) 10 (Suc 0) = 1 / 2"
  by (simp add: adapt_factor_def powr_minus)

lemma af_accept: "adapt_factor (9 / 10) (9 / 10) (1 / 5) 10 (Suc 0) = 1"
  by (simp add: adapt_factor_def powr_minus)

lemmas gate_eval =
  hybrid_body_def h_clip_def h_clamp_dt_def h_trial_dt_def hcfg_gate_def hs_at_def
  check_all_def triggered_def gate_solver_def SolverTemplate_def gate_step_def py_ops Let_def
  tensor_ops vf_zero_def x_one_def error_ratio_def error_scaled_def hairer_norm_single
  adapt_step_def af_reject af_accept

lemma gate_pass1: "hybrid_body hcfg_gate (hs_at 0 1 0 0 [0]) = Inr (hs_at 0 (1 / 4) (Suc 0) 1 [0])"
  by (simp add: gate_eval)

lemma gate_pass2: "hybrid_body hcfg_gate (hs_at 0 (1 / 4) (Suc 0) 1 [0]) = Inr (hs_at (1 / 4) (1 / 4) (Suc 0) 1 [0, 1 / 4])"
  by (simp add: gate_eval)

lemma gate_pass3: "hybrid_body hcfg_gate (hs_at (1 / 4) (1 / 4) (Suc 0) 1 [0, 1 / 4])
   = Inr (hs_at (1 / 2) (1 / 4) (Suc 0) 1 [0, 1 / 4, 1 / 2])"
  by (simp add: gate_eval)

lemma gate_pass4: "hybrid_body hcfg_gate (hs_at (1 / 2) (1 / 4) (Suc 0) 1 [0, 1 / 4, 1 / 2])
   = Inr (hs_at (3 / 4) (1 / 4) (Suc 0) 1 [0, 1 / 4, 1 / 2, 3 / 4])"
  by (simp add: gate_eval)

lemma gate_pass5: "hybrid_body hcfg_gate (hs_at (3 / 4) (1 / 4) (Suc 0) 1 [0, 1 / 4, 1 / 2, 3 / 4])
   = Inr (hs_at 1 (1 / 4) (Suc 0) 1 [0, 1 / 4, 1 / 2, 3 / 4, 1])"
  by (simp add: gate_eval)

lemma gate_guard: "cur_t (hs_at t dt c dto tms) = t" "jnum (hs_at t dt c dto tms) = 0"
  "h_T hcfg_gate = 1" "h_j_span hcfg_gate = 1"
  by (simp_all add: hs_at_def hcfg_gate_def)

lemma gate_loop_tail:
  "hybrid_loop hcfg_gate (hs_at 0 (1 / 4) (Suc 0) 1 [0])
     = Some (Inr (hs_at 1 (1 / 4) (Suc 0) 1 [0, 1 / 4, 1 / 2, 3 / 4, 1]))"
  apply (subst hybrid_loop.simps, simp add: gate_guard gate_pass2)
  apply (subst hybrid_loop.simps, simp add: gate_guard gate_pass3)
  apply (subst hybrid_loop.simps, simp add: gate_guard gate_pass4)
  apply (subst hybrid_loop.simps, simp add: gate_guard gate_pass5)
  apply (subst hybrid_loop.simps, simp add: gate_guard)
  done

lemma gate_loop:
  "hybrid_loop hcfg_gate (hs_at 0 1 0 0 [0])
     = Some (Inr (hs_at 1 (1 / 4) (Suc 0) 1 [0, 1 / 4, 1 / 2, 3 / 4, 1]))"
  by (subst hybrid_loop.simps) (simp add: gate_guard gate_pass1 gate_loop_tail)

lemma hybrid_body_counter:
  "hybrid_body cfg s = Inr s' \<Longrightarrow>
     ckpt_counter s' = (if h_clip cfg s then ckpt_counter s + 1 else ckpt_counter s)"
  by (auto simp add: hybrid_body_def Let_def bind_err_def
        split: sum.splits if_splits prod.splits)

lemma hybrid_loop_counter_mono:
  assumes run: "hybrid_loop cfg s = Some y"
  shows "\<forall>s'. y = Inr s' \<longrightarrow> ckpt_counter s \<le> ckpt_counter s'"
proof (rule hybrid_loop.raw_induct
         [where P = "\<lambda>cfg s y. \<forall>s'. y = Inr s' \<longrightarrow> ckpt_counter s \<le> ckpt_counter s'", OF _ run])
  fix loop :: "hconfig \<Rightarrow> hstate \<Rightarrow> (py_error + hstate) option" and cfg s y
  assume IH: "\<And>c b y. loop c b = Some y \<Longrightarrow> \<forall>s'. y = Inr s' \<longrightarrow> ckpt_counter b \<le> ckpt_counter s'"
    and eq: "(if cur_t s < h_T cfg \<and> jnum s < h_j_span cfg
              then case hybrid_body cfg s of Inl e \<Rightarrow> Some (Inl e) | Inr s' \<Rightarrow> loop cfg s'
              else Some (Inr s)) = Some y"
  show "\<forall>s'. y = Inr s' \<longrightarrow> ckpt_counter s \<le> ckpt_counter s'"
  proof (intro allI impI)
    fix s' assume y: "y = Inr s'"
    show "ckpt_counter s \<le> ckpt_counter s'"
    proof (cases "cur_t s < h_T cfg \<and> jnum s < h_j_span cfg")
      case False
      with eq y show ?thesis by simp
    next
      case True
      with eq y obtain s1 where b: "hybrid_body cfg s = Inr s1"
        and l: "loop cfg s1 = Some (Inr s')"
        by (auto split: sum.splits)
      from hybrid_body_counter [OF b] have "ckpt_counter s \<le> ckpt_counter s1" by simp
      moreover from IH [OF l] have "ckpt_counter s1 \<le> ckpt_counter s'" by simp
      ultimately show ?thesis by simp
    qed
  qed
qed

text \<open>
  C10 as stated fails in its last part. On \<^verbatim>\<open>t_span = [0, 1/2, 1]\<close> the first trial step is
  cut to land on \<open>1/2\<close>, the counter goes to 1 and the step is rejected; the run goes on
  with the step size \<open>1/4\<close>, its second accepted step ends at \<open>1/2\<close>, and the returned
  times hold a sample at \<open>1/2\<close>.
\<close>

theorem hybrid_skipped_time_counterexample:
  "h_clip hcfg_gate (hs_at 0 1 0 0 [0]) \<and>
   cur_t (hs_at 0 1 0 0 [0]) + h_trial_dt hcfg_gate (hs_at 0 1 0 0 [0]) = [0, 1 / 2, 1] ! 1 \<and>
   hybrid_body hcfg_gate (hs_at 0 1 0 0 [0]) = Inr (hs_at 0 (1 / 4) (Suc 0) 1 [0]) \<and>
   odeint_hybrid init_step_one vf_zero x_one [0, 1 / 2, 1] 1 gate_solver [] 1 0 (1 / 10000)
       True (False, None)
     = Some (Inr ([0, 1 / 4, 1 / 2, 3 / 4, 1], [x_one, x_one, x_one, x_one, x_one]))"
proof -
  have a: "h_clip hcfg_gate (hs_at 0 1 0 0 [0])"
    "cur_t (hs_at 0 1 0 0 [0]) + h_trial_dt hcfg_gate (hs_at 0 1 0 0 [0]) = [0, 1 / 2, 1] ! 1"
    by (simp_all add: h_clip_def h_clamp_dt_def h_trial_dt_def hcfg_gate_def hs_at_def)
  have run: "odeint_hybrid init_step_one vf_zero x_one [0, 1 / 2, 1] 1 gate_solver [] 1 0
       (1 / 10000) True (False, None)
     = Some (Inr ([0, 1 / 4, 1 / 2, 3 / 4, 1], [x_one, x_one, x_one, x_one, x_one]))"
    using gate_loop
    by (simp add: odeint_hybrid_def Let_def hcfg_gate_def hs_at_def init_step_one_def
          check_all_def triggered_def)
  from a gate_pass1 run show ?thesis by simp
qed

lemma hcfg_jump_sel:
  "h_callbacks hcfg_jump = [cb_after1]" "h_solver hcfg_jump = est_solver"
  "h_f hcfg_jump = vf_zero" "h_T hcfg_jump = 2" "h_t_eval hcfg_jump = [1, 2]"
  "h_event_tol hcfg_jump = 1 / 4" "h_atol hcfg_jump = 1" "h_rtol hcfg_jump = 0"
  "h_seminorm hcfg_jump = (False, None)"
  by (simp_all add: hcfg_jump_def)

lemmas jump_eval =
  hcfg_jump_sel cb_after1_def check_all_def triggered_def est_solver_def SolverTemplate_def
  est_step_def py_ops Let_def tensor_ops vf_zero_def x_one_def

lemma bisect_jump:
  "bisect hcfg_jump 1 0 1 (Tensor [Suc 0] [1]) (PTensor (Tensor [Suc 0] [0])) [True] 0
     = Inr (3 / 4, 1 / 4, Tensor [Suc 0] [1], PTensor (Tensor [Suc 0] [0]), [True], 5)"
  apply (subst bisect.simps, simp add: jump_eval)
  apply (subst bisect.simps, simp add: jump_eval)
  apply (subst bisect.simps, simp add: jump_eval)
  apply (subst bisect.simps, simp add: jump_eval)
  apply (subst bisect.simps, simp add: jump_eval)
  apply (subst bisect.simps, simp add: jump_eval)
  done

lemma jump_pass:
  "hybrid_body hcfg_jump (hs_init 2) =
     Inr \<lparr> cur_t = 3 / 4, cur_x = Tensor [1] [1], cur_dt = 1, cur_k1 = PNone,
           ckpt_counter = 1, ckpt_flag = True, dt_old = 2,
           eval_times = [0, 3 / 4, 3 / 4],
           sol = [Tensor [1] [1], Tensor [1] [1], Tensor [1] [1]], jnum = 0 \<rparr>"
  by (simp add: hybrid_body_def h_clip_def h_clamp_dt_def h_trial_dt_def hs_init_def
        jump_eval bisect_jump first_true_def)

lemma hybrid_body_appends:
  assumes bod: "hybrid_body cfg s = Inr s'"
  shows "(eval_times s' = eval_times s \<and> sol s' = sol s \<and> cur_t s' = cur_t s) \<or>
         (cur_t s' = cur_t s + h_trial_dt cfg s \<and> eval_times s' = eval_times s @ [cur_t s'] \<and>
          sol s' = sol s @ [cur_x s']) \<or>
         (\<exists>x_pre. eval_times s' = eval_times s @ [cur_t s', cur_t s'] \<and>
                  sol s' = sol s @ [x_pre, cur_x s'])"
  using bod
  by (auto simp add: hybrid_body_def Let_def bind_err_def
        split: sum.splits if_splits prod.splits)

lemma hybrid_body_event:
  assumes bod: "hybrid_body cfg s = Inr s'"
      and stp: "step (h_solver cfg) (h_f cfg) (cur_x s) (cur_t s) (h_trial_dt cfg s) (cur_k1 s)
                  = Inr [f_new, PTensor x_new, x_err, w]"
      and ev: "0 < triggered (check_all (h_callbacks cfg) (cur_t s + h_trial_dt cfg s) x_new)
                     (replicate (length (h_callbacks cfg)) False)"
  shows "\<exists>x_pre. eval_times s' = eval_times s @ [cur_t s', cur_t s'] \<and>
                 sol s' = sol s @ [x_pre, cur_x s'] \<and> cur_dt s' = h_trial_dt cfg s"
proof -
  have ne: "h_callbacks cfg \<noteq> []"
    using ev by (auto simp add: check_all_def triggered_def)
  show ?thesis
    using bod stp ev ne
    by (auto simp add: hybrid_body_def Let_def bind_err_def unpack4_def as_tensor_def
          split: sum.splits if_splits prod.splits)
qed

text \<open>
  C10 amended: in a pass of the hybrid loop that raises nothing, the checkpoint counter is
  incremented exactly when the step size is cut to land on the next requested time, before
  the trial step and whatever becomes of it, and it never decreases for the rest of the run,
  so no later step is cut to land on that time. When the trial step is rejected, time, state
  and accumulator are unchanged; when it is superseded by an event, the samples before and
  after the jump are appended at the time where the bisection stopped. A pass appends
  nothing, or the end of its accepted step, or the two samples of an event; so a sample at
  the requested time is appended only where an accepted step or the bracket of an event
  ends exactly there.
\<close>

theorem hybrid_ckpt_counter_early:
  assumes bod: "hybrid_body cfg s = Inr s'"
  shows "ckpt_counter s' = (if h_clip cfg s then ckpt_counter s + 1 else ckpt_counter s) \<and>
         (h_clip cfg s \<longrightarrow> cur_t s + h_trial_dt cfg s = h_t_eval cfg ! ckpt_counter s) \<and>
         (\<forall>f_new x_new x_err w r.
            step (h_solver cfg) (h_f cfg) (cur_x s) (cur_t s) (h_trial_dt cfg s) (cur_k1 s)
              = Inr [f_new, PTensor x_new, x_err, w] \<and>
            triggered (check_all (h_callbacks cfg) (cur_t s + h_trial_dt cfg s) x_new)
              (replicate (length (h_callbacks cfg)) False) = 0 \<and>
            error_ratio (h_seminorm cfg) (h_atol cfg) (h_rtol cfg) (cur_x s) (PTensor x_new) x_err
              = Inr r \<and> 1 < r \<longrightarrow>
            cur_t s' = cur_t s \<and> cur_x s' = cur_x s \<and> sol s' = sol s \<and>
            eval_times s' = eval_times s) \<and>
         (\<forall>f_new x_new x_err w.
            step (h_solver cfg) (h_f cfg) (cur_x s) (cur_t s) (h_trial_dt cfg s) (cur_k1 s)
              = Inr [f_new, PTensor x_new, x_err, w] \<and>
            0 < triggered (check_all (h_callbacks cfg) (cur_t s + h_trial_dt cfg s) x_new)
                  (replicate (length (h_callbacks cfg)) False) \<longrightarrow>
            (\<exists>x_pre. eval_times s' = eval_times s @ [cur_t s', cur_t s'] \<and>
                     sol s' = sol s @ [x_pre, cur_x s'] \<and> cur_dt s' = h_trial_dt cfg s)) \<and>
         ((eval_times s' = eval_times s \<and> sol s' = sol s \<and> cur_t s' = cur_t s) \<or>
          (cur_t s' = cur_t s + h_trial_dt cfg s \<and> eval_times s' = eval_times s @ [cur_t s'] \<and>
           sol s' = sol s @ [cur_x s']) \<or>
          (\<exists>x_pre. eval_times s' = eval_times s @ [cur_t s', cur_t s'] \<and>
                   sol s' = sol s @ [x_pre, cur_x s'])) \<and>
         (\<forall>s''. hybrid_loop cfg s' = Some (Inr s'') \<longrightarrow> ckpt_counter s' \<le> ckpt_counter s'')"
proof -
  have c1: "ckpt_counter s' = (if h_clip cfg s then ckpt_counter s + 1 else ckpt_counter s)"
    by (rule hybrid_body_counter [OF bod])
  have c2: "h_clip cfg s \<longrightarrow> cur_t s + h_trial_dt cfg s = h_t_eval cfg ! ckpt_counter s"
    by (simp add: h_trial_dt_def)
  have c3: "\<forall>f_new x_new x_err w r.
            step (h_solver cfg) (h_f cfg) (cur_x s) (cur_t s) (h_trial_dt cfg s) (cur_k1 s)
              = Inr [f_new, PTensor x_new, x_err, w] \<and>
            triggered (check_all (h_callbacks cfg) (cur_t s + h_trial_dt cfg s) x_new)
              (replicate (length (h_callbacks cfg)) False) = 0 \<and>
            error_ratio (h_seminorm cfg) (h_atol cfg) (h_rtol cfg) (cur_x s) (PTensor x_new) x_err
              = Inr r \<and> 1 < r \<longrightarrow>
            cur_t s' = cur_t s \<and> cur_x s' = cur_x s \<and> sol s' = sol s \<and>
            eval_times s' = eval_times s"
    using bod
    by (cases "h_callbacks cfg = []")
       (auto simp add: hybrid_body_def Let_def bind_err_def unpack4_def as_tensor_def
          check_all_def triggered_def split: sum.splits if_splits prod.splits)
  have c4: "\<forall>f_new x_new x_err w.
            step (h_solver cfg) (h_f cfg) (cur_x s) (cur_t s) (h_trial_dt cfg s) (cur_k1 s)
              = Inr [f_new, PTensor x_new, x_err, w] \<and>
            0 < triggered (check_all (h_callbacks cfg) (cur_t s + h_trial_dt cfg s) x_new)
                  (replicate (length (h_callbacks cfg)) False) \<longrightarrow>
            (\<exists>x_pre. eval_times s' = eval_times s @ [cur_t s', cur_t s'] \<and>
                     sol s' = sol s @ [x_pre, cur_x s'] \<and> cur_dt s' = h_trial_dt cfg s)"
    using hybrid_body_event [OF bod] by blast
  have c5: "(eval_times s' = eval_times s \<and> sol s' = sol s \<and> cur_t s' = cur_t s) \<or>
          (cur_t s' = cur_t s + h_trial_dt cfg s \<and> eval_times s' = eval_times s @ [cur_t s'] \<and>
           sol s' = sol s @ [cur_x s']) \<or>
          (\<exists>x_pre. eval_times s' = eval_times s @ [cur_t s', cur_t s'] \<and>
                   sol s' = sol s @ [x_pre, cur_x s'])"
    by (rule hybrid_body_appends [OF bod])
  have c6: "\<forall>s''. hybrid_loop cfg s' = Some (Inr s'') \<longrightarrow> ckpt_counter s' \<le> ckpt_counter s''"
    using hybrid_loop_counter_mono by blast
  from c1 c2 c3 c4 c5 c6 show ?thesis by blast
qed

theorem hybrid_ckpt_counter_early_witness:
  "hybrid_body hcfg_gate (hs_at 0 1 0 0 [0]) = Inr (hs_at 0 (1 / 4) (Suc 0) 1 [0]) \<and>
   h_clip hcfg_gate (hs_at 0 1 0 0 [0]) \<and>
   ckpt_counter (hs_at 0 (1 / 4) (Suc 0) 1 [0]) = ckpt_counter (hs_at 0 1 0 0 [0]) + 1 \<and>
   cur_t (hs_at 0 1 0 0 [0]) + h_trial_dt hcfg_gate (hs_at 0 1 0 0 [0])
     = h_t_eval hcfg_gate ! ckpt_counter (hs_at 0 1 0 0 [0]) \<and>
   error_ratio (h_seminorm hcfg_gate) (h_atol hcfg_gate) (h_rtol hcfg_gate)
       (cur_x (hs_at 0 1 0 0 [0])) (PTensor (Tensor [1] [1])) (PTensor (Tensor [1] [9 / 5]))
     = Inr (9 / 5) \<and>
   (1 :: real) < 9 / 5 \<and>
   sol (hs_at 0 (1 / 4) (Suc 0) 1 [0]) = sol (hs_at 0 1 0 0 [0]) \<and>
   hybrid_loop hcfg_gate (hs_at 0 (1 / 4) (Suc 0) 1 [0])
     = Some (Inr (hs_at 1 (1 / 4) (Suc 0) 1 [0, 1 / 4, 1 / 2, 3 / 4, 1])) \<and>
   ckpt_counter (hs_at 0 (1 / 4) (Suc 0) 1 [0])
     \<le> ckpt_counter (hs_at 1 (1 / 4) (Suc 0) 1 [0, 1 / 4, 1 / 2, 3 / 4, 1]) \<and>
   hybrid_body hcfg_jump (hs_init 2) =
     Inr \<lparr> cur_t = 3 / 4, cur_x = Tensor [1] [1], cur_dt = 1, cur_k1 = PNone,
           ckpt_counter = 1, ckpt_flag = True, dt_old = 2,
           eval_times = [0, 3 / 4, 3 / 4],
           sol = [Tensor [1] [1], Tensor [1] [1], Tensor [1] [1]], jnum = 0 \<rparr> \<and>
   h_clip hcfg_jump (hs_init 2) \<and>
   cur_t (hs_init 2) + h_trial_dt hcfg_jump (hs_init 2) = 1 \<and>
   step (h_solver hcfg_jump) (h_f hcfg_jump) (cur_x (hs_init 2)) (cur_t (hs_init 2))
       (h_trial_dt hcfg_jump (hs_init 2)) (cur_k1 (hs_init 2))
     = Inr [PTensor (Tensor [1] [0]), PTensor (Tensor [1] [1]), PTensor (Tensor [1] [4]), PList []] \<and>
   0 < triggered (check_all (h_callbacks hcfg_jump)
                    (cur_t (hs_init 2) + h_trial_dt hcfg_jump (hs_init 2)) (Tensor [1] [1]))
         (replicate (length (h_callbacks hcfg_jump)) False) \<and>
   eval_times (hs_init 2) @ [3 / 4, 3 / 4] = [0, 3 / 4, 3 / 4]"
proof -
  have clip: "h_clip hcfg_gate (hs_at 0 1 0 0 [0])"
    by (simp add: h_clip_def h_clamp_dt_def hcfg_gate_def hs_at_def)
  have rat: "error_ratio (h_seminorm hcfg_gate) (h_atol hcfg_gate) (h_rtol hcfg_gate)
       (cur_x (hs_at 0 1 0 0 [0])) (PTensor (Tensor [1] [1])) (PTensor (Tensor [1] [9 / 5]))
     = Inr (9 / 5)"
    by (simp add: gate_eval)
  have sel: "ckpt_counter (hs_at t dt c dto tms) = c" "sol (hs_at 0 dt c dto [0]) = [x_one]"
    for t dt c dto tms
    by (simp_all add: hs_at_def)
  have jclip: "h_clip hcfg_jump (hs_init 2)"
    "cur_t (hs_init 2) + h_trial_dt hcfg_jump (hs_init 2) = 1"
    "eval_times (hs_init 2) @ [3 / 4, 3 / 4] = [0, 3 / 4, 3 / 4]"
    by (simp_all add: h_clip_def h_clamp_dt_def h_trial_dt_def hcfg_jump_def hs_init_def)
  have jstep: "step (h_solver hcfg_jump) (h_f hcfg_jump) (cur_x (hs_init 2)) (cur_t (hs_init 2))
       (h_trial_dt hcfg_jump (hs_init 2)) (cur_k1 (hs_init 2))
     = Inr [PTensor (Tensor [1] [0]), PTensor (Tensor [1] [1]), PTensor (Tensor [1] [4]), PList []]"
    by (simp add: h_clip_def h_clamp_dt_def h_trial_dt_def hs_init_def jump_eval)
  have jev: "0 < triggered (check_all (h_callbacks hcfg_jump)
                    (cur_t (hs_init 2) + h_trial_dt hcfg_jump (hs_init 2)) (Tensor [1] [1]))
         (replicate (length (h_callbacks hcfg_jump)) False)"
    by (simp add: jclip(2) jump_eval)
  from hybrid_ckpt_counter_early [OF gate_pass1] hybrid_ckpt_counter_early [OF jump_pass]
    clip rat gate_loop_tail gate_pass1 jump_pass jclip jstep jev
  show ?thesis by (simp add: sel)
qed

subsection \<open>Multiple shooting\<close>

lemma fixed_odeint_Euler_two: "fixed_odeint f x [a, b] Euler = Inl TypeError"
  by (simp add: fixed_odeint_def fixed_loop.simps Let_def Euler_def SolverTemplate_def
        Euler_step_def py_ops)

text \<open>
  The loop \<^verbatim>\<open>while i <= maxiter\<close> started at \<^verbatim>\<open>i = 0\<close> performs \<open>maxiter + 1\<close> rounds.
\<close>

lemma ms_loop_iter:
  "int i \<le> maxiter + 1 \<Longrightarrow>
     ms_loop odeint_func f ms sub n maxiter i B
       = ms_iter odeint_func f ms sub n (nat (maxiter + 1 - int i)) i B"
proof (induction "nat (maxiter + 1 - int i)" arbitrary: i B)
  case 0
  then have "\<not> int i \<le> maxiter" by simp
  with 0 show ?case by (simp add: ms_loop.simps)
next
  case (Suc k)
  then have le: "int i \<le> maxiter" and k: "k = nat (maxiter + 1 - int (i + 1))"
    and le': "int (i + 1) \<le> maxiter + 1" by simp_all
  have S: "nat (maxiter + 1 - int i) = Suc (nat (maxiter + 1 - int (i + 1)))"
    using le by simp
  have IH: "ms_loop odeint_func f ms sub n maxiter (Suc i)
              = ms_iter odeint_func f ms sub n (nat (maxiter - int i)) (Suc i)"
  proof (rule ext)
    fix B'
    show "ms_loop odeint_func f ms sub n maxiter (Suc i) B'
            = ms_iter odeint_func f ms sub n (nat (maxiter - int i)) (Suc i) B'"
      using Suc.hyps(1) [OF k le', of B'] by simp
  qed
  show ?case
    apply (subst ms_loop.simps)
    apply (simp only: le if_True S ms_iter.simps)
    apply (simp add: IH)
    done
qed

lemma root_solve_rounds:
  assumes "2 \<le> length t_span" and "0 \<le> maxiter"
  shows "root_solve ms odeint_func f x t_span B fine_steps maxiter
           = ms_iter odeint_func f ms (linspace 0 (t_span ! 1 - t_span ! 0) fine_steps)
               (length t_span - 1) (nat maxiter + 1) 0 B"
proof -
  have "nat (maxiter + 1) = nat maxiter + 1" using assms(2) by simp
  then show ?thesis
    using assms ms_loop_iter [of 0 maxiter odeint_func f ms _ _ B]
    by (simp add: root_solve_def Let_def)
qed

text \<open>
  C8 (the code departs from the claim): with \<^verbatim>\<open>maxiter = 0\<close> the claim has no round
  performed and \<^verbatim>\<open>(t_span, B0)\<close> returned. \<^verbatim>\<open>odeint_mshooting\<close> with \<^verbatim>\<open>MSZero\<close> enters a
  round, whose first call of \<^verbatim>\<open>_fixed_odeint\<close> with the Euler solver raises TypeError; and
  with solvers for which \<^verbatim>\<open>_fixed_odeint\<close> returns, \<^verbatim>\<open>root_solve\<close> performs one round, which
  changes the second entry and leaves zeros in the last.
\<close>

theorem mszero_maxiter_zero_runs_round:
  "odeint_mshooting init_step_one vf_zero x_one [0, 1, 2] (MSZero tb) (Some B3) 2 0
     = Some (Inl TypeError) \<and>
   root_solve ms_slot2 fixed_odeint vf_zero x_one [0, 1, 2] B3 2 0
     = Inr [Tensor [1] [1], Tensor [1] [1], Tensor [1] [0]]"
proof -
  have a: "odeint_mshooting init_step_one vf_zero x_one [0, 1, 2] (MSZero tb) (Some B3) 2 0
     = Some (Inl TypeError)"
    by (simp add: odeint_mshooting_def root_solve_def Let_def linspace_def ms_loop.simps
          ms_round_def final_state_def MSZero_def fixed_odeint_Euler_two bind_err_def upt_rec)
  have b: "root_solve ms_slot2 fixed_odeint vf_zero x_one [0, 1, 2] B3 2 0
     = Inr [Tensor [1] [1], Tensor [1] [1], Tensor [1] [0]]"
    by (simp add: root_solve_def Let_def linspace_def ms_loop.simps ms_round_def
          final_state_def ms_slot2_def fixed_odeint_def fixed_loop.simps slot2_solver_def
          slot2_step_def SolverTemplate_def py_ops tensor_ops vf_zero_def B3_def
          stack_rows_def unstack_def upt_rec)
  from a b show ?thesis by simp
qed

end
